theory Spec2Isabelle
  imports Complex_Main "HOL-Library.Char_ord" "HOL-Library.List_Lexorder"
    "HOL-Library.Monad_Syntax"
begin

section \<open>Errors\<close>

text \<open>
  The error messages of \<^verbatim>\<open>errors.go\<close>.
\<close>

definition errEmptyAPIKey :: string where
  "errEmptyAPIKey = ''invalid credentials: API Key must not be empty''"

definition errMissingTrackingNumber :: string where
  "errMissingTrackingNumber = ''tracking number is empty and must be provided''"

definition errMissingTrackingID :: string where
  "errMissingTrackingID = ''tracking id is empty and must be provided''"

definition errMissingSlugOrTrackingNumber :: string where
  "errMissingSlugOrTrackingNumber =
     ''slug or tracking number is empty, both of them must be provided''"

text \<open>
  \<^verbatim>\<open>APIError\<close> and \<^verbatim>\<open>TooManyRequestsError\<close> of \<^verbatim>\<open>errors.go\<close>. The declaration of
  \<^verbatim>\<open>RateLimit\<close> is not among the sources; its three attributes are those the
  specification gives for the Rate Limit State (times are integer timestamps).
  A nil pointer is \<open>None\<close>.
\<close>

record APIError =
  Code :: int
  Type :: string
  Message :: string
  Path :: string
  HTTPStatusCode :: int

record RateLimit =
  limit :: int
  remaining :: int
  resetAt :: int

record TooManyRequestsError =
  APIError :: APIError
  RateLimit :: "RateLimit option"

text \<open>
  The values of Go's \<^verbatim>\<open>error\<close> interface that occur: \<^verbatim>\<open>errors.New(msg)\<close> and
  \<^verbatim>\<open>errors.Wrap(err, msg)\<close> of \<^verbatim>\<open>github.com/pkg/errors\<close>, and the two error structs.
  The structs are what \<^verbatim>\<open>makeRequest\<close> may hand back for a failed API call. \<open>Cause\<close> is
  \<^verbatim>\<open>errors.Cause\<close>: it strips the wrappings.
\<close>

datatype error =
    New string
  | Wrap error string
  | APIErr APIError
  | TooManyRequests TooManyRequestsError

fun Cause :: "error \<Rightarrow> error" where
  "Cause (Wrap err msg) = Cause err"
| "Cause e = e"

text \<open>
  The validation errors of the identifier resolver: what the specification calls
  \<^verbatim>\<open>MissingIdentifier\<close> is, in the code, one of two \<^verbatim>\<open>errors.New\<close> values.
\<close>

definition isMissingIdentifier :: "error \<Rightarrow> bool" where
  "isMissingIdentifier e =
     (e = New errMissingTrackingID \<or> e = New errMissingSlugOrTrackingNumber)"

section \<open>Percent-escaping of a path segment\<close>

text \<open>
  \<^verbatim>\<open>url.PathEscape\<close> belongs to Go's standard library (\<^verbatim>\<open>net/url\<close>), not to this
  repository; it is written out here as the library defines it. In the mode
  \<^verbatim>\<open>encodePathSegment\<close> (\<^verbatim>\<open>PathEscape\<close>) letters, digits and \<^verbatim>\<open>- _ . ~\<close> are kept; of the reserved
  characters \<^verbatim>\<open>$ & + , / : ; = ? @\<close> only \<^verbatim>\<open>/ ; , ?\<close> are escaped; every other byte is
  escaped. In the mode \<^verbatim>\<open>encodeQueryComponent\<close> (\<^verbatim>\<open>QueryEscape\<close>) all reserved characters
  are escaped and a space becomes \<^verbatim>\<open>+\<close>. An escaped byte becomes \<^verbatim>\<open>%\<close> and two upper-case
  hexadecimal digits.
  A Go string is a sequence of bytes, as \<^typ>\<open>string\<close> is.
\<close>

datatype encoding = encodePathSegment | encodeQueryComponent

definition upperhex :: string where
  "upperhex = ''0123456789ABCDEF''"

definition shouldEscape :: "char \<Rightarrow> encoding \<Rightarrow> bool" where
  "shouldEscape c mode =
     (let n = (of_char c :: nat) in
      if (97 \<le> n \<and> n \<le> 122) \<or> (65 \<le> n \<and> n \<le> 90) \<or> (48 \<le> n \<and> n \<le> 57) then False
      else if c \<in> set ''-_.~'' then False
      else if c \<in> set ''$&+,/:;=?@'' then
        (case mode of
           encodePathSegment \<Rightarrow> c = CHR ''/'' \<or> c = CHR '';'' \<or> c = CHR '','' \<or> c = CHR ''?''
         | encodeQueryComponent \<Rightarrow> True)
      else True)"

definition escape_byte :: "encoding \<Rightarrow> char \<Rightarrow> string" where
  "escape_byte mode c =
     (if shouldEscape c mode then
        (if c = CHR '' '' \<and> mode = encodeQueryComponent then ''+''
         else [CHR ''%'', upperhex ! ((of_char c :: nat) div 16),
               upperhex ! ((of_char c :: nat) mod 16)])
      else [c])"

definition escape :: "string \<Rightarrow> encoding \<Rightarrow> string" where
  "escape s mode = concat (map (escape_byte mode) s)"

definition PathEscape :: "string \<Rightarrow> string" where
  "PathEscape s = escape s encodePathSegment"

definition QueryEscape :: "string \<Rightarrow> string" where
  "QueryEscape s = escape s encodeQueryComponent"

section \<open>Tracking identifiers\<close>

text \<open>
  The interface \<^verbatim>\<open>TrackingIdentifier\<close> has two implementations, \<^verbatim>\<open>TrackingID\<close> (a string)
  and \<^verbatim>\<open>SlugTrackingNumber\<close> (a struct of the fields \<^verbatim>\<open>Slug\<close> and \<^verbatim>\<open>TrackingNumber\<close>, in
  this order). \<open>URIPath\<close> returns the error or the path.

  The sources hold two revisions of the tracking file. The model follows the one in
  which \<^verbatim>\<open>URIPath\<close> returns \<^verbatim>\<open>(string, error)\<close> and the operations are methods of
  \<^verbatim>\<open>Client\<close>; it is the one that uses the messages of \<^verbatim>\<open>errors.go\<close>. In the other revision
  (\<^verbatim>\<open>trackings.go\<close>) \<^verbatim>\<open>URIPath\<close> returns only the string, without the checks for empty
  fields, and is otherwise the same: a slash and the escaped fields. That revision is
  kept below as \<open>URIPath_unchecked\<close>.
\<close>

datatype TrackingIdentifier =
    TrackingID string
  | SlugTrackingNumber string string

fun URIPath :: "TrackingIdentifier \<Rightarrow> error + string" where
  "URIPath (TrackingID tid) =
     (if tid = [] then Inl (New errMissingTrackingID)
      else Inr (''/'' @ PathEscape tid))"
| "URIPath (SlugTrackingNumber slug number) =
     (if slug = [] \<or> number = [] then Inl (New errMissingSlugOrTrackingNumber)
      else Inr (''/'' @ PathEscape slug @ ''/'' @ PathEscape number))"

text \<open>
  \<^verbatim>\<open>URIPath\<close> as the revision \<^verbatim>\<open>trackings.go\<close> has it, without the checks.
\<close>

fun URIPath_unchecked :: "TrackingIdentifier \<Rightarrow> string" where
  "URIPath_unchecked (TrackingID tid) = ''/'' @ PathEscape tid"
| "URIPath_unchecked (SlugTrackingNumber slug number) =
     ''/'' @ PathEscape slug @ ''/'' @ PathEscape number"

text \<open>The number of path segments of a path is the number of its slashes.\<close>

definition segment_count :: "string \<Rightarrow> nat" where
  "segment_count p = count_list p CHR ''/''"

section \<open>Parameter and result structs\<close>

text \<open>
  The structs of the tracking file, field by field. \<^verbatim>\<open>*time.Time\<close> is an optional
  timestamp, \<^verbatim>\<open>float64\<close> a real, \<^verbatim>\<open>map[string]string\<close> a map, a slice a list. Each
  struct comes with its zero value (\<^verbatim>\<open>Tracking{}\<close> and so on).

  In \<^verbatim>\<open>CreateTrackingParams\<close> and \<^verbatim>\<open>UpdateTrackingParams\<close>, the two structs that the
  operations send as JSON, a slice or a map is optional, \<open>None\<close> being \<^verbatim>\<open>nil\<close>: there a
  \<^verbatim>\<open>nil\<close> slice and an empty one are different values that are written to the same JSON.
\<close>

type_synonym Time = int

record Checkpoint =
  Slug :: string
  CreatedAt :: "Time option"
  CheckpointTime :: string
  City :: string
  Coordinates :: "string list"
  CountryISO3 :: string
  CountryName :: string
  Message :: string
  State :: string
  Location :: string
  Tag :: string
  Subtag :: string
  SubtagMessage :: string
  Zip :: string
  RawTag :: string

definition Checkpoint_zero :: Checkpoint where
  "Checkpoint_zero = \<lparr>
     Checkpoint.Slug = '''',
     Checkpoint.CreatedAt = None,
     Checkpoint.CheckpointTime = '''',
     Checkpoint.City = '''',
     Checkpoint.Coordinates = [],
     Checkpoint.CountryISO3 = '''',
     Checkpoint.CountryName = '''',
     Checkpoint.Message = '''',
     Checkpoint.State = '''',
     Checkpoint.Location = '''',
     Checkpoint.Tag = '''',
     Checkpoint.Subtag = '''',
     Checkpoint.SubtagMessage = '''',
     Checkpoint.Zip = '''',
     Checkpoint.RawTag = '''' \<rparr>"

record EstimatedDeliveryDate =
  EstimatedDeliveryDate :: string
  ConfidenceScore :: real
  EstimatedDeliveryDateMin :: string
  EstimatedDeliveryDateMax :: string

definition EstimatedDeliveryDate_zero :: EstimatedDeliveryDate where
  "EstimatedDeliveryDate_zero = \<lparr>
     EstimatedDeliveryDate.EstimatedDeliveryDate = '''',
     EstimatedDeliveryDate.ConfidenceScore = 0,
     EstimatedDeliveryDate.EstimatedDeliveryDateMin = '''',
     EstimatedDeliveryDate.EstimatedDeliveryDateMax = '''' \<rparr>"

record LatestEstimatedDelivery =
  Type :: string
  Source :: string
  Datetime :: string
  DatetimeMin :: string
  DatetimeMax :: string

definition LatestEstimatedDelivery_zero :: LatestEstimatedDelivery where
  "LatestEstimatedDelivery_zero = \<lparr>
     LatestEstimatedDelivery.Type = '''',
     LatestEstimatedDelivery.Source = '''',
     LatestEstimatedDelivery.Datetime = '''',
     LatestEstimatedDelivery.DatetimeMin = '''',
     LatestEstimatedDelivery.DatetimeMax = '''' \<rparr>"

record Tracking =
  ID :: string
  CreatedAt :: "Time option"
  UpdatedAt :: "Time option"
  LastUpdatedAt :: "Time option"
  TrackingNumber :: string
  Slug :: string
  Active :: bool
  Android :: "string list"
  CustomFields :: "string \<rightharpoonup> string"
  CustomerName :: string
  DeliveryTime :: int
  DestinationCountryISO3 :: string
  DestinationRawLocation :: string
  CourierDestinationCountryISO3 :: string
  Emails :: "string list"
  ExpectedDelivery :: string
  IOS :: "string list"
  Note :: string
  OrderID :: string
  OrderIDPath :: string
  OrderDate :: string
  OriginCountryISO3 :: string
  ShipmentPackageCount :: int
  ShipmentPickupDate :: string
  ShipmentDeliveryDate :: string
  ShipmentType :: string
  ShipmentWeight :: real
  ShipmentWeightUnit :: string
  SignedBy :: string
  SMSes :: "string list"
  Source :: string
  Tag :: string
  Subtag :: string
  SubtagMessage :: string
  Title :: string
  TrackedCount :: int
  LastMileTrackingSupported :: bool
  Language :: string
  UniqueToken :: string
  Checkpoints :: "Checkpoint list"
  SubscribedSMSes :: "string list"
  SubscribedEmails :: "string list"
  ReturnToSender :: bool
  OrderPromisedDeliveryDate :: string
  DeliveryType :: string
  PickupLocation :: string
  PickupNote :: string
  CourierTrackingLink :: string
  FirstAttemptedAt :: string
  CourierRedirectLink :: string
  TrackingAccountNumber :: string
  TrackingOriginCountry :: string
  TrackingDestinationCountry :: string
  TrackingKey :: string
  TrackingPostalCode :: string
  TrackingShipDate :: string
  TrackingState :: string
  OnTimeStatus :: string
  OnTimeDifference :: int
  OrderTags :: "string list"
  EstimatedDeliveryDate :: EstimatedDeliveryDate
  OrderNumber :: string
  LatestEstimatedDelivery :: LatestEstimatedDelivery

definition Tracking_zero :: Tracking where
  "Tracking_zero = \<lparr>
     Tracking.ID = '''',
     Tracking.CreatedAt = None,
     Tracking.UpdatedAt = None,
     Tracking.LastUpdatedAt = None,
     Tracking.TrackingNumber = '''',
     Tracking.Slug = '''',
     Tracking.Active = False,
     Tracking.Android = [],
     Tracking.CustomFields = Map.empty,
     Tracking.CustomerName = '''',
     Tracking.DeliveryTime = 0,
     Tracking.DestinationCountryISO3 = '''',
     Tracking.DestinationRawLocation = '''',
     Tracking.CourierDestinationCountryISO3 = '''',
     Tracking.Emails = [],
     Tracking.ExpectedDelivery = '''',
     Tracking.IOS = [],
     Tracking.Note = '''',
     Tracking.OrderID = '''',
     Tracking.OrderIDPath = '''',
     Tracking.OrderDate = '''',
     Tracking.OriginCountryISO3 = '''',
     Tracking.ShipmentPackageCount = 0,
     Tracking.ShipmentPickupDate = '''',
     Tracking.ShipmentDeliveryDate = '''',
     Tracking.ShipmentType = '''',
     Tracking.ShipmentWeight = 0,
     Tracking.ShipmentWeightUnit = '''',
     Tracking.SignedBy = '''',
     Tracking.SMSes = [],
     Tracking.Source = '''',
     Tracking.Tag = '''',
     Tracking.Subtag = '''',
     Tracking.SubtagMessage = '''',
     Tracking.Title = '''',
     Tracking.TrackedCount = 0,
     Tracking.LastMileTrackingSupported = False,
     Tracking.Language = '''',
     Tracking.UniqueToken = '''',
     Tracking.Checkpoints = [],
     Tracking.SubscribedSMSes = [],
     Tracking.SubscribedEmails = [],
     Tracking.ReturnToSender = False,
     Tracking.OrderPromisedDeliveryDate = '''',
     Tracking.DeliveryType = '''',
     Tracking.PickupLocation = '''',
     Tracking.PickupNote = '''',
     Tracking.CourierTrackingLink = '''',
     Tracking.FirstAttemptedAt = '''',
     Tracking.CourierRedirectLink = '''',
     Tracking.TrackingAccountNumber = '''',
     Tracking.TrackingOriginCountry = '''',
     Tracking.TrackingDestinationCountry = '''',
     Tracking.TrackingKey = '''',
     Tracking.TrackingPostalCode = '''',
     Tracking.TrackingShipDate = '''',
     Tracking.TrackingState = '''',
     Tracking.OnTimeStatus = '''',
     Tracking.OnTimeDifference = 0,
     Tracking.OrderTags = [],
     Tracking.EstimatedDeliveryDate = EstimatedDeliveryDate_zero,
     Tracking.OrderNumber = '''',
     Tracking.LatestEstimatedDelivery = LatestEstimatedDelivery_zero \<rparr>"

record CreateTrackingParams =
  TrackingNumber :: string
  Slug :: string
  Title :: string
  OrderID :: string
  OrderIDPath :: string
  CustomFields :: "(string \<rightharpoonup> string) option"
  Language :: string
  OrderPromisedDeliveryDate :: string
  DeliveryType :: string
  PickupLocation :: string
  PickupNote :: string
  TrackingAccountNumber :: string
  TrackingOriginCountry :: string
  TrackingDestinationCountry :: string
  TrackingKey :: string
  TrackingPostalCode :: string
  TrackingShipDate :: string
  TrackingState :: string
  IOS :: "string list option"
  Android :: "string list option"
  Emails :: "string list option"
  SMSes :: "string list option"
  CustomerName :: string
  OriginCountryISO3 :: string
  DestinationCountryISO3 :: string
  Note :: string
  SlugGroup :: string
  OrderDate :: string
  OrderNumber :: string

definition CreateTrackingParams_zero :: CreateTrackingParams where
  "CreateTrackingParams_zero = \<lparr>
     CreateTrackingParams.TrackingNumber = '''',
     CreateTrackingParams.Slug = '''',
     CreateTrackingParams.Title = '''',
     CreateTrackingParams.OrderID = '''',
     CreateTrackingParams.OrderIDPath = '''',
     CreateTrackingParams.CustomFields = None,
     CreateTrackingParams.Language = '''',
     CreateTrackingParams.OrderPromisedDeliveryDate = '''',
     CreateTrackingParams.DeliveryType = '''',
     CreateTrackingParams.PickupLocation = '''',
     CreateTrackingParams.PickupNote = '''',
     CreateTrackingParams.TrackingAccountNumber = '''',
     CreateTrackingParams.TrackingOriginCountry = '''',
     CreateTrackingParams.TrackingDestinationCountry = '''',
     CreateTrackingParams.TrackingKey = '''',
     CreateTrackingParams.TrackingPostalCode = '''',
     CreateTrackingParams.TrackingShipDate = '''',
     CreateTrackingParams.TrackingState = '''',
     CreateTrackingParams.IOS = None,
     CreateTrackingParams.Android = None,
     CreateTrackingParams.Emails = None,
     CreateTrackingParams.SMSes = None,
     CreateTrackingParams.CustomerName = '''',
     CreateTrackingParams.OriginCountryISO3 = '''',
     CreateTrackingParams.DestinationCountryISO3 = '''',
     CreateTrackingParams.Note = '''',
     CreateTrackingParams.SlugGroup = '''',
     CreateTrackingParams.OrderDate = '''',
     CreateTrackingParams.OrderNumber = '''' \<rparr>"

record GetTrackingParams =
  Fields :: string
  Lang :: string


record UpdateTrackingParams =
  Emails :: "string list option"
  SMSes :: "string list option"
  Title :: string
  CustomerName :: string
  DestinationCountryISO3 :: string
  OrderID :: string
  OrderIDPath :: string
  OrderNumber :: string
  OrderDate :: string
  CustomFields :: "(string \<rightharpoonup> string) option"
  ShipmentType :: string

definition UpdateTrackingParams_zero :: UpdateTrackingParams where
  "UpdateTrackingParams_zero = \<lparr>
     UpdateTrackingParams.Emails = None,
     UpdateTrackingParams.SMSes = None,
     UpdateTrackingParams.Title = '''',
     UpdateTrackingParams.CustomerName = '''',
     UpdateTrackingParams.DestinationCountryISO3 = '''',
     UpdateTrackingParams.OrderID = '''',
     UpdateTrackingParams.OrderIDPath = '''',
     UpdateTrackingParams.OrderNumber = '''',
     UpdateTrackingParams.OrderDate = '''',
     UpdateTrackingParams.CustomFields = None,
     UpdateTrackingParams.ShipmentType = '''' \<rparr>"

record GetTrackingsParams =
  Page :: int
  Limit :: int
  Keyword :: string
  TrackingNumbers :: string
  Slug :: string
  DeliveryTime :: int
  Origin :: string
  Destination :: string
  Tag :: string
  CreatedAtMin :: string
  CreatedAtMax :: string
  UpdatedAtMin :: string
  UpdatedAtMax :: string
  Fields :: string
  Lang :: string
  LastUpdatedAt :: string
  ReturnToSender :: string
  CourierDestinationCountryIso3 :: string

definition GetTrackingsParams_zero :: GetTrackingsParams where
  "GetTrackingsParams_zero = \<lparr>
     GetTrackingsParams.Page = 0,
     GetTrackingsParams.Limit = 0,
     GetTrackingsParams.Keyword = '''',
     GetTrackingsParams.TrackingNumbers = '''',
     GetTrackingsParams.Slug = '''',
     GetTrackingsParams.DeliveryTime = 0,
     GetTrackingsParams.Origin = '''',
     GetTrackingsParams.Destination = '''',
     GetTrackingsParams.Tag = '''',
     GetTrackingsParams.CreatedAtMin = '''',
     GetTrackingsParams.CreatedAtMax = '''',
     GetTrackingsParams.UpdatedAtMin = '''',
     GetTrackingsParams.UpdatedAtMax = '''',
     GetTrackingsParams.Fields = '''',
     GetTrackingsParams.Lang = '''',
     GetTrackingsParams.LastUpdatedAt = '''',
     GetTrackingsParams.ReturnToSender = '''',
     GetTrackingsParams.CourierDestinationCountryIso3 = '''' \<rparr>"

record PagedTrackings =
  Limit :: int
  Count :: int
  Page :: int
  Trackings :: "Tracking list"

definition PagedTrackings_zero :: PagedTrackings where
  "PagedTrackings_zero = \<lparr>
     PagedTrackings.Limit = 0,
     PagedTrackings.Count = 0,
     PagedTrackings.Page = 0,
     PagedTrackings.Trackings = [] \<rparr>"

record trackingWrapper =
  Tracking :: Tracking

definition trackingWrapper_zero :: trackingWrapper where
  "trackingWrapper_zero = \<lparr>
     trackingWrapper.Tracking = Tracking_zero \<rparr>"

record SingleTrackingOptionalParams =
  TrackingPostalCode :: string
  TrackingShipDate :: string
  TrackingDestinationCountry :: string
  TrackingAccountNumber :: string
  TrackingKey :: string
  TrackingOriginCountry :: string
  TrackingState :: string


record createTrackingRequest =
  Tracking :: CreateTrackingParams

definition createTrackingRequest_zero :: createTrackingRequest where
  "createTrackingRequest_zero = \<lparr>
     createTrackingRequest.Tracking = CreateTrackingParams_zero \<rparr>"

record updateTrackingRequest =
  Tracking :: UpdateTrackingParams

definition updateTrackingRequest_zero :: updateTrackingRequest where
  "updateTrackingRequest_zero = \<lparr>
     updateTrackingRequest.Tracking = UpdateTrackingParams_zero \<rparr>"

record markAsCompletedRequest =
  Reason :: string

definition markAsCompletedRequest_zero :: markAsCompletedRequest where
  "markAsCompletedRequest_zero = \<lparr>
     markAsCompletedRequest.Reason = '''' \<rparr>"


section \<open>The tracking operations\<close>

text \<open>
  \<^verbatim>\<open>client.makeRequest(ctx, method, path, queryParams, inputData, resultData)\<close> is
  not among the sources: the operations take it as a parameter. Its last argument is a
  pointer to the result struct, so the model passes the struct in and gets it back, next
  to the error (\<open>None\<close> is nil); the state \<open>'s\<close> is the world the request acts on (network,
  clock). The two \<^verbatim>\<open>interface{}\<close> arguments hold nil or one of the structs the
  operations pass.
\<close>

datatype queryParams =
    QNil
  | QGetTrackingParams GetTrackingParams
  | QGetTrackingsParams GetTrackingsParams

datatype inputData =
    INil
  | ICreateTracking createTrackingRequest
  | IUpdateTracking updateTrackingRequest
  | IMarkAsCompleted markAsCompletedRequest

type_synonym ('ctx, 'r, 's) makeRequest =
  "'ctx \<Rightarrow> string \<Rightarrow> string \<Rightarrow> queryParams \<Rightarrow> inputData \<Rightarrow> 'r \<Rightarrow> 's \<Rightarrow> (error option \<times> 'r) \<times> 's"

definition MethodGet :: string where "MethodGet = ''GET''"

definition MethodPost :: string where "MethodPost = ''POST''"

definition MethodPut :: string where "MethodPut = ''PUT''"

definition MethodDelete :: string where "MethodDelete = ''DELETE''"

type_synonym TrackingCompletedStatus = string

definition TrackingCompletedStatusDelivered :: TrackingCompletedStatus where
  "TrackingCompletedStatusDelivered = ''DELIVERED''"

definition TrackingCompletedStatusLost :: TrackingCompletedStatus where
  "TrackingCompletedStatusLost = ''LOST''"

definition TrackingCompletedStatusReturnedToSender :: TrackingCompletedStatus where
  "TrackingCompletedStatusReturnedToSender = ''RETURNED_TO_SENDER''"

definition CreateTracking ::
  "('ctx, trackingWrapper, 's) makeRequest \<Rightarrow> 'ctx \<Rightarrow> CreateTrackingParams \<Rightarrow> 's
     \<Rightarrow> (Tracking \<times> error option) \<times> 's" where
  "CreateTracking makeRequest ctx params s =
     (if CreateTrackingParams.TrackingNumber params = []
      then ((Tracking_zero, Some (New errMissingTrackingNumber)), s)
      else
        (case makeRequest ctx MethodPost ''/trackings'' QNil
                (ICreateTracking \<lparr> createTrackingRequest.Tracking = params \<rparr>)
                trackingWrapper_zero s of
           ((err, w), s') \<Rightarrow> ((trackingWrapper.Tracking w, err), s')))"

definition DeleteTracking ::
  "('ctx, trackingWrapper, 's) makeRequest \<Rightarrow> 'ctx \<Rightarrow> TrackingIdentifier \<Rightarrow> 's
     \<Rightarrow> (Tracking \<times> error option) \<times> 's" where
  "DeleteTracking makeRequest ctx identifier s =
     (case URIPath identifier of
        Inl err \<Rightarrow> ((Tracking_zero, Some (Wrap err ''error deleting tracking'')), s)
      | Inr uriPath \<Rightarrow>
          (case makeRequest ctx MethodDelete (''/trackings'' @ uriPath) QNil INil
                  trackingWrapper_zero s of
             ((err, w), s') \<Rightarrow> ((trackingWrapper.Tracking w, err), s')))"

definition GetTrackings ::
  "('ctx, PagedTrackings, 's) makeRequest \<Rightarrow> 'ctx \<Rightarrow> GetTrackingsParams \<Rightarrow> 's
     \<Rightarrow> (PagedTrackings \<times> error option) \<times> 's" where
  "GetTrackings makeRequest ctx params s =
     (case makeRequest ctx MethodGet ''/trackings'' (QGetTrackingsParams params) INil
             PagedTrackings_zero s of
        ((err, pagedTrackings), s') \<Rightarrow> ((pagedTrackings, err), s'))"

definition GetTracking ::
  "('ctx, trackingWrapper, 's) makeRequest \<Rightarrow> 'ctx \<Rightarrow> TrackingIdentifier \<Rightarrow> GetTrackingParams
     \<Rightarrow> 's \<Rightarrow> (Tracking \<times> error option) \<times> 's" where
  "GetTracking makeRequest ctx identifier params s =
     (case URIPath identifier of
        Inl err \<Rightarrow> ((Tracking_zero, Some (Wrap err ''error getting tracking'')), s)
      | Inr uriPath \<Rightarrow>
          (case makeRequest ctx MethodGet (''/trackings'' @ uriPath) (QGetTrackingParams params)
                  INil trackingWrapper_zero s of
             ((err, w), s') \<Rightarrow> ((trackingWrapper.Tracking w, err), s')))"

definition UpdateTracking ::
  "('ctx, trackingWrapper, 's) makeRequest \<Rightarrow> 'ctx \<Rightarrow> TrackingIdentifier \<Rightarrow> UpdateTrackingParams
     \<Rightarrow> 's \<Rightarrow> (Tracking \<times> error option) \<times> 's" where
  "UpdateTracking makeRequest ctx identifier params s =
     (case URIPath identifier of
        Inl err \<Rightarrow> ((Tracking_zero, Some (Wrap err ''error updating tracking'')), s)
      | Inr uriPath \<Rightarrow>
          (case makeRequest ctx MethodPut (''/trackings'' @ uriPath) QNil
                  (IUpdateTracking \<lparr> updateTrackingRequest.Tracking = params \<rparr>)
                  trackingWrapper_zero s of
             ((err, w), s') \<Rightarrow> ((trackingWrapper.Tracking w, err), s')))"

definition RetrackTracking ::
  "('ctx, trackingWrapper, 's) makeRequest \<Rightarrow> 'ctx \<Rightarrow> TrackingIdentifier \<Rightarrow> 's
     \<Rightarrow> (Tracking \<times> error option) \<times> 's" where
  "RetrackTracking makeRequest ctx identifier s =
     (case URIPath identifier of
        Inl err \<Rightarrow> ((Tracking_zero, Some (Wrap err ''error retracking'')), s)
      | Inr uriPath \<Rightarrow>
          (case makeRequest ctx MethodPost (''/trackings'' @ uriPath @ ''/retrack'') QNil INil
                  trackingWrapper_zero s of
             ((err, w), s') \<Rightarrow> ((trackingWrapper.Tracking w, err), s')))"

definition MarkTrackingAsCompleted ::
  "('ctx, trackingWrapper, 's) makeRequest \<Rightarrow> 'ctx \<Rightarrow> TrackingIdentifier
     \<Rightarrow> TrackingCompletedStatus \<Rightarrow> 's \<Rightarrow> (Tracking \<times> error option) \<times> 's" where
  "MarkTrackingAsCompleted makeRequest ctx identifier status s =
     (case URIPath identifier of
        Inl err \<Rightarrow>
          ((Tracking_zero, Some (Wrap err ''error marking tracking as completed'')), s)
      | Inr uriPath \<Rightarrow>
          (case makeRequest ctx MethodPost (''/trackings'' @ uriPath @ ''/mark-as-completed'')
                  QNil (IMarkAsCompleted \<lparr> Reason = status \<rparr>) trackingWrapper_zero s of
             ((err, w), s') \<Rightarrow> ((trackingWrapper.Tracking w, err), s')))"

subsection \<open>A transport that records its calls\<close>

text \<open>
  To count the requests an operation issues, \<open>recording\<close> wraps any \<open>makeRequest\<close> so
  that every call appends its arguments to a log kept beside the world state.
\<close>

record 'ctx call =
  call_ctx :: 'ctx
  call_method :: string
  call_path :: string
  call_query :: queryParams
  call_input :: inputData

definition recording ::
  "('ctx, 'r, 's) makeRequest \<Rightarrow> ('ctx, 'r, 'ctx call list \<times> 's) makeRequest" where
  "recording makeRequest c m p q i r =
     (\<lambda>(calls, s). case makeRequest c m p q i r s of
        (res, s') \<Rightarrow>
          (res, (calls @ [\<lparr> call_ctx = c, call_method = m, call_path = p, call_query = q,
                          call_input = i \<rparr>], s')))"

section \<open>The notification operations\<close>

text \<open>
  The notification endpoint (\<^verbatim>\<open>v2/notification/endpoint.go\<close>) uses
  \<^verbatim>\<open>tracking.BuildTrackingURL\<close>, \<^verbatim>\<open>request.APIRequest.MakeRequest\<close> and the types
  \<^verbatim>\<open>tracking.SingleTrackingParam\<close>, \<^verbatim>\<open>Data\<close> and \<^verbatim>\<open>error.AfterShipError\<close>, none of which is
  among the sources. They are parameters: the types are type variables, the zero value
  \<^verbatim>\<open>Data{}\<close> is the argument \<open>Data_zero\<close>, and the two functions are arguments.
  \<^verbatim>\<open>Envelope\<close> is the struct whose field \<^verbatim>\<open>Data\<close> the operations read.
\<close>

record 'data Envelope =
  Data :: 'data

type_synonym ('param, 'e) BuildTrackingURL = "'param \<Rightarrow> string \<Rightarrow> string \<Rightarrow> 'e + string"

type_synonym ('data, 'e, 's) MakeRequest =
  "string \<Rightarrow> string \<Rightarrow> 'data option \<Rightarrow> 'data Envelope \<Rightarrow> 's \<Rightarrow> ('e option \<times> 'data Envelope) \<times> 's"

definition AddNotification ::
  "('param, 'e) BuildTrackingURL \<Rightarrow> ('data, 'e, 's) MakeRequest \<Rightarrow> 'data \<Rightarrow> 'param \<Rightarrow> 'data
     \<Rightarrow> 's \<Rightarrow> ('data \<times> 'e option) \<times> 's" where
  "AddNotification BuildTrackingURL MakeRequest Data_zero param data s =
     (case BuildTrackingURL param ''notifications'' ''add'' of
        Inl err \<Rightarrow> ((Data_zero, Some err), s)
      | Inr url \<Rightarrow>
          (case MakeRequest ''POST'' url (Some data) \<lparr> Data = Data_zero \<rparr> s of
             ((Some err, envelope), s') \<Rightarrow> ((Data_zero, Some err), s')
           | ((None, envelope), s') \<Rightarrow> ((Data envelope, None), s')))"

definition RemoveNotification ::
  "('param, 'e) BuildTrackingURL \<Rightarrow> ('data, 'e, 's) MakeRequest \<Rightarrow> 'data \<Rightarrow> 'param \<Rightarrow> 'data
     \<Rightarrow> 's \<Rightarrow> ('data \<times> 'e option) \<times> 's" where
  "RemoveNotification BuildTrackingURL MakeRequest Data_zero param data s =
     (case BuildTrackingURL param ''notifications'' ''remove'' of
        Inl err \<Rightarrow> ((Data_zero, Some err), s)
      | Inr url \<Rightarrow>
          (case MakeRequest ''POST'' url (Some data) \<lparr> Data = Data_zero \<rparr> s of
             ((Some err, envelope), s') \<Rightarrow> ((Data_zero, Some err), s')
           | ((None, envelope), s') \<Rightarrow> ((Data envelope, None), s')))"

definition GetNotification ::
  "('param, 'e) BuildTrackingURL \<Rightarrow> ('data, 'e, 's) MakeRequest \<Rightarrow> 'data \<Rightarrow> 'param
     \<Rightarrow> 's \<Rightarrow> ('data \<times> 'e option) \<times> 's" where
  "GetNotification BuildTrackingURL MakeRequest Data_zero param s =
     (case BuildTrackingURL param ''notifications'' [] of
        Inl err \<Rightarrow> ((Data_zero, Some err), s)
      | Inr url \<Rightarrow>
          (case MakeRequest ''GET'' url None \<lparr> Data = Data_zero \<rparr> s of
             ((Some err, envelope), s') \<Rightarrow> ((Data_zero, Some err), s')
           | ((None, envelope), s') \<Rightarrow> ((Data envelope, None), s')))"

record http_call =
  http_method :: string
  http_url :: string

definition recording_http ::
  "('data, 'e, 's) MakeRequest \<Rightarrow> ('data, 'e, http_call list \<times> 's) MakeRequest" where
  "recording_http MakeRequest m u d r =
     (\<lambda>(calls, s). case MakeRequest m u d r s of
        (res, s') \<Rightarrow> (res, (calls @ [\<lparr> http_method = m, http_url = u \<rparr>], s')))"

section \<open>The request engine\<close>

text \<open>
  The request engine itself (the function behind \<^verbatim>\<open>makeRequest\<close>: encoding, the HTTP
  call, decoding, the classification of failures, the wait and retry after a rate limit)
  is not among the sources. The definitions of this section are modelled from the
  specification, sections 4.2 to 4.5, and say so one by one.
\<close>

subsection \<open>JSON values and the envelope codec\<close>

text \<open>
  A JSON document as a value; an object keeps its members in order. Bytes that are not
  JSON at all are \<open>None\<close> where a parsed body is expected.
\<close>

datatype json =
    JNull
  | JBool bool
  | JNumber int
  | JString string
  | JArray "json list"
  | JObject "(string \<times> json) list"


datatype error_kind =
    ValidationError
  | AuthenticationError
  | NotFoundError
  | RateLimitedError
  | ServerError
  | DecodeError
  | TransportError
  | MissingIdentifier

text \<open>
  An error of the engine is its kind with what the kind carries: the API error for the
  kinds read from an error body, the Rate Limit State besides for a rate limit, the raw
  status and body for a decode error, the cause for a transport error.
\<close>

datatype failure =
    Validation APIError
  | Authentication APIError
  | NotFound APIError
  | RateLimited APIError RateLimit
  | Server APIError
  | Decode int string
  | Transport string

fun kind :: "failure \<Rightarrow> error_kind" where
  "kind (Validation e) = ValidationError"
| "kind (Authentication e) = AuthenticationError"
| "kind (NotFound e) = NotFoundError"
| "kind (RateLimited e rl) = RateLimitedError"
| "kind (Server e) = ServerError"
| "kind (Decode st raw) = DecodeError"
| "kind (Transport cause) = TransportError"

text \<open>
  Modelled from the spec: the Envelope Codec of section 4.2, which is not among the
  sources. Encoding turns the typed payload into JSON and puts it under the envelope
  key in a single-key object. Decoding extracts the value at that key and reads it into
  the target type; the three decode failures are those the specification lists. How a
  type is written to and read from JSON is given by the two functions \<open>to_json\<close> and
  \<open>of_json\<close> of the type.
\<close>

datatype decode_failure = MalformedJSON | MissingKey | TypeMismatch

definition encode_envelope :: "('a \<Rightarrow> json) \<Rightarrow> string \<Rightarrow> 'a \<Rightarrow> json" where
  "encode_envelope to_json key payload = JObject [(key, to_json payload)]"

fun decode_envelope ::
  "(json \<Rightarrow> 'a option) \<Rightarrow> string \<Rightarrow> json option \<Rightarrow> decode_failure + 'a" where
  "decode_envelope of_json key None = Inl MalformedJSON"
| "decode_envelope of_json key (Some (JObject members)) =
     (case map_of members key of
        None \<Rightarrow> Inl MissingKey
      | Some v \<Rightarrow> (case of_json v of None \<Rightarrow> Inl TypeMismatch | Some payload \<Rightarrow> Inr payload))"
| "decode_envelope of_json key (Some other) = Inl TypeMismatch"

subsection \<open>The parameter structs as JSON\<close>

































subsection \<open>Sparse query serialization\<close>

text \<open>
  A query struct is read through its \<^verbatim>\<open>url\<close> tags: each field gives the parameter name,
  whether the tag says \<^verbatim>\<open>omitempty\<close>, and the value (an \<^verbatim>\<open>int\<close> or a \<^verbatim>\<open>string\<close>). The three
  lists below are the tags of the sources.
\<close>

datatype qvalue = QInt int | QStr string

type_synonym qfield = "string \<times> bool \<times> qvalue"


definition GetTrackingsParams_fields :: "GetTrackingsParams \<Rightarrow> qfield list" where
  "GetTrackingsParams_fields p =
    [(''page'', True, QInt (GetTrackingsParams.Page p)),
     (''limit'', True, QInt (GetTrackingsParams.Limit p)),
     (''keyword'', True, QStr (GetTrackingsParams.Keyword p)),
     (''tracking_numbers'', True, QStr (GetTrackingsParams.TrackingNumbers p)),
     (''slug'', True, QStr (GetTrackingsParams.Slug p)),
     (''delivery_time'', True, QInt (GetTrackingsParams.DeliveryTime p)),
     (''origin'', True, QStr (GetTrackingsParams.Origin p)),
     (''destination'', True, QStr (GetTrackingsParams.Destination p)),
     (''tag'', True, QStr (GetTrackingsParams.Tag p)),
     (''created_at_min'', True, QStr (GetTrackingsParams.CreatedAtMin p)),
     (''created_at_max'', True, QStr (GetTrackingsParams.CreatedAtMax p)),
     (''updated_at_min'', True, QStr (GetTrackingsParams.UpdatedAtMin p)),
     (''updated_at_max'', True, QStr (GetTrackingsParams.UpdatedAtMax p)),
     (''fields'', True, QStr (GetTrackingsParams.Fields p)),
     (''lang'', True, QStr (GetTrackingsParams.Lang p)),
     (''last_updated_at'', True, QStr (GetTrackingsParams.LastUpdatedAt p)),
     (''return_to_sender'', True, QStr (GetTrackingsParams.ReturnToSender p)),
     (''courier_destination_country_iso3'', True,
        QStr (GetTrackingsParams.CourierDestinationCountryIso3 p))]"


text \<open>
  An integer in decimal, as \<^verbatim>\<open>strconv.Itoa\<close> prints it: the digits are produced from the
  last to the first.
\<close>

definition decimal_digits :: string where
  "decimal_digits = ''0123456789''"

function format_digits :: "nat \<Rightarrow> string \<Rightarrow> string" where
  "format_digits n acc =
     (if n < 10 then decimal_digits ! n # acc
      else format_digits (n div 10) (decimal_digits ! (n mod 10) # acc))"
  by pat_completeness auto
termination
  by (relation "measure fst") auto

definition Itoa :: "int \<Rightarrow> string" where
  "Itoa i = (if i < 0 then CHR ''-'' # format_digits (nat (- i)) [] else format_digits (nat i) [])"

fun isEmptyValue :: "qvalue \<Rightarrow> bool" where
  "isEmptyValue (QInt i) = (i = 0)"
| "isEmptyValue (QStr s) = (s = [])"

fun value_string :: "qvalue \<Rightarrow> string" where
  "value_string (QInt i) = Itoa i"
| "value_string (QStr s) = s"

text \<open>
  Modelled from the spec: the query serialization of section 4.3, step 2, which is not
  among the sources. A field whose tag says \<^verbatim>\<open>omitempty\<close> and whose value is empty or zero
  is left out; the others become \<^verbatim>\<open>name=value\<close> pairs, in the order of the fields, joined
  by \<^verbatim>\<open>&\<close>, names and values escaped for a query.
\<close>

definition query_pairs :: "qfield list \<Rightarrow> (string \<times> string) list" where
  "query_pairs fs =
     map (\<lambda>(name, omitempty, v). (name, value_string v))
       (filter (\<lambda>(name, omitempty, v). \<not> (omitempty \<and> isEmptyValue v)) fs)"

fun join_amp :: "string list \<Rightarrow> string" where
  "join_amp [] = []"
| "join_amp [x] = x"
| "join_amp (x # y # ys) = x @ ''&'' @ join_amp (y # ys)"

definition query_string :: "qfield list \<Rightarrow> string" where
  "query_string fs =
     join_amp (map (\<lambda>(k, v). QueryEscape k @ ''='' @ QueryEscape v) (query_pairs fs))"

subsection \<open>The error classifier\<close>

text \<open>
  A response as the transport hands it over: the status, the raw body, the body parsed
  as JSON (\<open>None\<close> when it is not JSON), and the snapshot of the Rate Limit State that
  every response carries.
\<close>

record response =
  status :: int
  raw_body :: string
  parsed_body :: "json option"
  rate_limit :: RateLimit

definition string_member :: "(string \<times> json) list \<Rightarrow> string \<Rightarrow> string option" where
  "string_member members name =
     (case map_of members name of
        None \<Rightarrow> Some []
      | Some (JString s) \<Rightarrow> Some s
      | Some other \<Rightarrow> None)"

definition int_member :: "(string \<times> json) list \<Rightarrow> string \<Rightarrow> int option" where
  "int_member members name =
     (case map_of members name of
        None \<Rightarrow> Some 0
      | Some (JNumber i) \<Rightarrow> Some i
      | Some other \<Rightarrow> None)"

text \<open>
  Modelled from the spec: reading an error body by the documented error schema (the
  members \<^verbatim>\<open>code\<close>, \<^verbatim>\<open>type\<close>, \<^verbatim>\<open>message\<close>, \<^verbatim>\<open>path\<close> of \<^verbatim>\<open>APIError\<close>, whose tags are in
  \<^verbatim>\<open>errors.go\<close>). The body must be an object; a member that is absent keeps the zero
  value, a member of the wrong type makes the body fail the schema. The HTTP status is
  stored in the error.
\<close>

fun decode_error_body :: "int \<Rightarrow> json option \<Rightarrow> APIError option" where
  "decode_error_body st (Some (JObject members)) =
     (case (int_member members ''code'', string_member members ''type'',
            string_member members ''message'', string_member members ''path'') of
        (Some c, Some t, Some m, Some p) \<Rightarrow>
          Some \<lparr> Code = c, Type = t, Message = m, Path = p, HTTPStatusCode = st \<rparr>
      | other \<Rightarrow> None)"
| "decode_error_body st other = None"

definition generic_APIError :: "int \<Rightarrow> APIError" where
  "generic_APIError st = \<lparr> Code = 0, Type = [], Message = [], Path = [], HTTPStatusCode = st \<rparr>"

text \<open>
  Modelled from the spec: the Error Classifier of section 4.4, which is not among the
  sources. A 429 is a rate limit whatever its body says, and carries the Rate Limit
  State of the response (with the API error of the body, or one holding only the status
  when the body fails the schema). Otherwise a body that fails the schema gives a decode
  error with the raw status and body; 401 and 403 are authentication errors, 404 is not
  found, the rest of the 400 class is a validation error, the 500 class a server error.
  The specification names no kind for a status outside 400 to 599; the model gives the
  decode error, its generic case, there too.
\<close>

definition classify :: "response \<Rightarrow> failure" where
  "classify r =
     (if status r = 429 then
        (case decode_error_body (status r) (parsed_body r) of
           Some e \<Rightarrow> RateLimited e (rate_limit r)
         | None \<Rightarrow> RateLimited (generic_APIError (status r)) (rate_limit r))
      else
        (case decode_error_body (status r) (parsed_body r) of
           None \<Rightarrow> Decode (status r) (raw_body r)
         | Some e \<Rightarrow>
             if status r = 401 \<or> status r = 403 then Authentication e
             else if status r = 404 then NotFound e
             else if 400 \<le> status r \<and> status r < 500 then Validation e
             else if 500 \<le> status r \<and> status r < 600 then Server e
             else Decode (status r) (raw_body r)))"

subsection \<open>The dispatcher\<close>

text \<open>
  The request descriptor of section 3 (method, path, query parameters, optional body to
  be put in an envelope) with the envelope key of the expected result; the HTTP request
  that leaves the client; and the injected transport, a stub that answers the \<open>n\<close>-th
  attempt with a response or with a transport failure (its cause as text). The world
  holds the clock and the log of the HTTP requests sent so far.
\<close>

record request =
  req_method :: string
  req_path :: string
  req_query :: "qfield list"
  req_body :: "(string \<times> json) option"
  result_key :: string

record http_request =
  h_method :: string
  h_url :: string
  h_api_key :: string
  h_content_type :: "string option"
  h_payload :: "json option"

datatype outcome = Response response | Failure string

record client =
  api_key :: string
  transport :: "http_request \<Rightarrow> nat \<Rightarrow> outcome"

record world =
  clock :: int
  sent :: "http_request list"

definition build_http_request :: "client \<Rightarrow> request \<Rightarrow> http_request" where
  "build_http_request c rq =
     \<lparr> h_method = req_method rq,
       h_url = (if query_string (req_query rq) = [] then req_path rq
                else req_path rq @ ''?'' @ query_string (req_query rq)),
       h_api_key = api_key c,
       h_content_type = (case req_body rq of None \<Rightarrow> None | Some b \<Rightarrow> Some ''application/json''),
       h_payload = (case req_body rq of None \<Rightarrow> None
                    | Some (key, payload) \<Rightarrow> Some (encode_envelope (\<lambda>j. j) key payload)) \<rparr>"

text \<open>
  Modelled from the spec: the Request Dispatcher of section 4.3, which is not among the
  sources. One invocation sends exactly one HTTP request. A transport failure becomes a
  transport error; a 2xx response is decoded through the envelope codec (a decode
  failure is a decode error with the raw status and body); any other response goes to
  the classifier.
\<close>

definition dispatch ::
  "client \<Rightarrow> (json \<Rightarrow> 'a option) \<Rightarrow> request \<Rightarrow> world \<Rightarrow> (failure + 'a) \<times> world" where
  "dispatch c of_json rq w =
     (let h = build_http_request c rq;
          w' = w \<lparr> sent := sent w @ [h] \<rparr>
      in case transport c h (length (sent w)) of
           Failure cause \<Rightarrow> (Inl (Transport cause), w')
         | Response r \<Rightarrow>
             if 200 \<le> status r \<and> status r < 300 then
               (case decode_envelope of_json (result_key rq) (parsed_body r) of
                  Inl f \<Rightarrow> (Inl (Decode (status r) (raw_body r)), w')
                | Inr v \<Rightarrow> (Inr v, w'))
             else (Inl (classify r), w'))"

subsection \<open>The retry policy\<close>

text \<open>
  The caller's context: the time at which the caller cancels, if it does, and the
  deadline, if there is one.
\<close>

record call_context =
  canceled_at :: "int option"
  deadline :: "int option"

text \<open>
  Modelled from the spec: the wait of section 4.5, the reset time of the Rate Limit
  State minus the current time, floored at zero.
\<close>

definition wait_duration :: "RateLimit \<Rightarrow> int \<Rightarrow> int" where
  "wait_duration rl now = (let d = resetAt rl - now in if d < 0 then 0 else d)"

text \<open>
  Modelled from the spec: the wait is given up when the context is canceled before the
  wait would complete, or when the deadline would be exceeded before it completes. A
  deadline that the wait would exceed is known at once, so the policy returns without
  waiting; a cancellation is known when it happens, so the policy returns then.
\<close>

definition deadline_exceeded :: "call_context \<Rightarrow> int \<Rightarrow> bool" where
  "deadline_exceeded ctx until = (case deadline ctx of None \<Rightarrow> False | Some d \<Rightarrow> d < until)"

definition canceled_before :: "call_context \<Rightarrow> int \<Rightarrow> bool" where
  "canceled_before ctx until = (case canceled_at ctx of None \<Rightarrow> False | Some t \<Rightarrow> t < until)"

definition abort_time :: "call_context \<Rightarrow> int \<Rightarrow> int \<Rightarrow> int" where
  "abort_time ctx now until =
     (if deadline_exceeded ctx until then now
      else case canceled_at ctx of None \<Rightarrow> now | Some t \<Rightarrow> max now t)"

text \<open>
  Modelled from the spec: the Retry Policy of section 4.5 around the dispatcher, the
  \<^verbatim>\<open>execute\<close> of section 4.3. After a rate limit the policy waits (the state \<^verbatim>\<open>Waiting\<close>),
  unless the context makes it give up, and invokes the dispatcher once more; whatever
  that second invocation returns is the result. Every other result of the first
  invocation is returned as it is.
\<close>

definition execute ::
  "client \<Rightarrow> (json \<Rightarrow> 'a option) \<Rightarrow> call_context \<Rightarrow> request \<Rightarrow> world
     \<Rightarrow> (failure + 'a) \<times> world" where
  "execute c of_json ctx rq w =
     (case dispatch c of_json rq w of
        (Inl (RateLimited e rl), w1) \<Rightarrow>
          (let until = clock w1 + wait_duration rl (clock w1) in
           if canceled_before ctx until \<or> deadline_exceeded ctx until
           then (Inl (RateLimited e rl), w1 \<lparr> clock := abort_time ctx (clock w1) until \<rparr>)
           else dispatch c of_json rq (w1 \<lparr> clock := until \<rparr>))
      | other \<Rightarrow> other)"

section \<open>Example inputs\<close>

text \<open>
  Concrete inputs at which the properties below are evaluated: the error body of the
  specification's 404 example (with its double quotes), a transport that answers every
  attempt with a 429 whose Rate Limit State resets at time 102, a transport that answers
  with the 404, a request, a context without cancellation or deadline, and a world whose
  clock shows 100.
\<close>

definition example_404_body :: string where
  "example_404_body =
     ''{'' @ [CHR 0x22] @ ''code'' @ [CHR 0x22] @ '':4004,'' @ [CHR 0x22] @ ''message'' @
     [CHR 0x22] @ '':'' @ [CHR 0x22] @ ''not found'' @ [CHR 0x22] @ ''}''"









definition rate_limited_response :: response where
  "rate_limited_response =
     \<lparr> status = 429, raw_body = ''Too Many Requests'', parsed_body = None,
       rate_limit = \<lparr> limit = 10, remaining = 0, resetAt = 102 \<rparr> \<rparr>"

definition not_found_response :: response where
  "not_found_response =
     \<lparr> status = 404, raw_body = example_404_body,
       parsed_body = Some (JObject [(''code'', JNumber 4004), (''message'', JString ''not found'')]),
       rate_limit = \<lparr> limit = 10, remaining = 9, resetAt = 102 \<rparr> \<rparr>"

text \<open>
  A 404 whose body is plain text, not the error schema.
\<close>

definition unreadable_not_found_response :: response where
  "unreadable_not_found_response =
     \<lparr> status = 404, raw_body = ''Not Found'', parsed_body = None,
       rate_limit = \<lparr> limit = 10, remaining = 9, resetAt = 102 \<rparr> \<rparr>"

definition always_limited :: client where
  "always_limited = \<lparr> api_key = ''key'', transport = (\<lambda>h n. Response rate_limited_response) \<rparr>"

definition never_found :: client where
  "never_found = \<lparr> api_key = ''key'', transport = (\<lambda>h n. Response not_found_response) \<rparr>"

definition get_trackings_request :: request where
  "get_trackings_request =
     \<lparr> req_method = ''GET'', req_path = ''/trackings'',
       req_query = GetTrackingsParams_fields (GetTrackingsParams_zero \<lparr> GetTrackingsParams.Page := 2 \<rparr>),
       req_body = None, result_key = ''trackings'' \<rparr>"

definition no_limits :: call_context where
  "no_limits = \<lparr> canceled_at = None, deadline = None \<rparr>"

definition start :: world where
  "start = \<lparr> clock = 100, sent = [] \<rparr>"

section \<open>Properties of the identifier resolver\<close>

lemma upperhex_nth_not_slash: "n < 16 \<Longrightarrow> upperhex ! n \<noteq> CHR ''/''"
proof -
  assume "n < 16"
  then have "n \<in> set [0..<16]" by simp
  then show ?thesis
    unfolding upperhex_def by (simp add: upt_rec) (elim disjE; simp)
qed

lemma of_char_div_16: "(of_char c :: nat) div 16 < 16"
proof -
  have "(of_char c :: nat) < 256" by simp
  then show ?thesis by arith
qed

lemma slash_shouldEscape: "shouldEscape CHR ''/'' encodePathSegment"
  by (simp add: shouldEscape_def)

lemma escape_byte_no_slash: "CHR ''/'' \<notin> set (escape_byte encodePathSegment c)"
proof (cases "shouldEscape c encodePathSegment")
  case True
  then show ?thesis
    using upperhex_nth_not_slash [OF of_char_div_16 [of c]]
          upperhex_nth_not_slash [of "of_char c mod 16"]
    by (simp add: escape_byte_def)
next
  case False
  then have "c \<noteq> CHR ''/''" using slash_shouldEscape by auto
  with False show ?thesis by (simp add: escape_byte_def)
qed

lemma PathEscape_no_slash: "CHR ''/'' \<notin> set (PathEscape s)"
  by (simp add: PathEscape_def escape_def escape_byte_no_slash)

lemma segment_count_PathEscape: "segment_count (PathEscape s) = 0"
  using PathEscape_no_slash [of s] by (simp add: segment_count_def count_list_0_iff)

lemma segment_count_append: "segment_count (xs @ ys) = segment_count xs + segment_count ys"
  by (simp add: segment_count_def)

lemma segment_count_Cons:
  "segment_count (c # xs) = (if c = CHR ''/'' then Suc (segment_count xs) else segment_count xs)"
  by (simp add: segment_count_def)

lemma escape_byte_slash: "escape_byte encodePathSegment CHR ''/'' = ''%2F''"
  by (simp add: escape_byte_def shouldEscape_def upperhex_def)


text \<open>
  The revision without the checks resolves an empty id to a bare slash; only the
  revision with the checks can fail.
\<close>

lemma URIPath_unchecked_blank: "URIPath_unchecked (TrackingID []) = ''/''"
  by (simp add: PathEscape_def escape_def)

text \<open>
  Claim C5. A \<^verbatim>\<open>TrackingID\<close> with a non-empty id resolves to a slash followed by the
  percent-escaped id, a \<^verbatim>\<open>SlugTrackingNumber\<close> with non-empty slug and number to a slash,
  the escaped slug, a slash and the escaped number; \<^verbatim>\<open>abc123\<close> resolves to \<^verbatim>\<open>/abc123\<close> and
  (\<^verbatim>\<open>dhl\<close>, \<^verbatim>\<open>RA123\<close>) to \<^verbatim>\<open>/dhl/RA123\<close>. A slash inside an id, slug or number is escaped
  (to \<^verbatim>\<open>%2F\<close>), no escaped text contains a slash, and so the path has one segment for an
  id and two for a slug and number, whatever they contain. Where \<open>URIPath\<close> succeeds, the
  revision without the checks gives the same path.
\<close>

theorem C5_URIPath_escaped:
  "(tid \<noteq> [] \<longrightarrow>
      URIPath (TrackingID tid) = Inr (''/'' @ PathEscape tid) \<and>
      segment_count (''/'' @ PathEscape tid) = 1) \<and>
   (slug \<noteq> [] \<and> number \<noteq> [] \<longrightarrow>
      URIPath (SlugTrackingNumber slug number) =
        Inr (''/'' @ PathEscape slug @ ''/'' @ PathEscape number) \<and>
      segment_count (''/'' @ PathEscape slug @ ''/'' @ PathEscape number) = 2) \<and>
   URIPath (TrackingID ''abc123'') = Inr ''/abc123'' \<and>
   URIPath (SlugTrackingNumber ''dhl'' ''RA123'') = Inr ''/dhl/RA123'' \<and>
   escape_byte encodePathSegment CHR ''/'' = ''%2F'' \<and>
   CHR ''/'' \<notin> set (PathEscape s) \<and>
   (URIPath ident = Inr p \<longrightarrow> URIPath_unchecked ident = p)"
proof -
  have same: "URIPath ident = Inr p \<Longrightarrow> URIPath_unchecked ident = p"
    by (cases ident) (auto split: if_splits)
  have ex1: "PathEscape ''abc123'' = ''abc123''"
    by (simp add: PathEscape_def escape_def escape_byte_def shouldEscape_def)
  have ex2: "PathEscape ''dhl'' = ''dhl''"
    by (simp add: PathEscape_def escape_def escape_byte_def shouldEscape_def)
  have ex3: "PathEscape ''RA123'' = ''RA123''"
    by (simp add: PathEscape_def escape_def escape_byte_def shouldEscape_def)
  show ?thesis
    using ex1 ex2 ex3 same
    by (simp add: segment_count_append segment_count_Cons segment_count_PathEscape
        escape_byte_slash PathEscape_no_slash)
qed

text \<open>The same at identifiers that contain slashes and a space.\<close>

theorem C5_URIPath_escaped_witness:
  "URIPath (TrackingID ''a/b'') = Inr ''/a%2Fb'' \<and>
   segment_count ''/a%2Fb'' = 1 \<and>
   URIPath (SlugTrackingNumber ''d/hl'' ''RA/1 23'') = Inr ''/d%2Fhl/RA%2F1%2023'' \<and>
   segment_count ''/d%2Fhl/RA%2F1%2023'' = 2 \<and>
   URIPath_unchecked (SlugTrackingNumber ''d/hl'' ''RA/1 23'') = ''/d%2Fhl/RA%2F1%2023''"
proof -
  have e1: "PathEscape ''a/b'' = ''a%2Fb''"
    by (simp add: PathEscape_def escape_def escape_byte_def shouldEscape_def upperhex_def)
  have e2: "PathEscape ''d/hl'' = ''d%2Fhl''"
    by (simp add: PathEscape_def escape_def escape_byte_def shouldEscape_def upperhex_def)
  have e3: "PathEscape ''RA/1 23'' = ''RA%2F1%2023''"
    by (simp add: PathEscape_def escape_def escape_byte_def shouldEscape_def upperhex_def)
  show ?thesis
    using C5_URIPath_escaped
            [where tid = "''a/b''" and slug = "''d/hl''" and number = "''RA/1 23''"
               and ident = "SlugTrackingNumber ''d/hl'' ''RA/1 23''"
               and p = "''/d%2Fhl/RA%2F1%2023''"]
          e1 e2 e3
    by simp
qed

section \<open>Properties of the operations\<close>

lemma recording_apply:
  "recording mk c m p q i r (lg, s) =
     (fst (mk c m p q i r s),
      (lg @ [\<lparr> call_ctx = c, call_method = m, call_path = p, call_query = q, call_input = i \<rparr>],
       snd (mk c m p q i r s)))"
  by (simp add: recording_def split: prod.splits)

lemma recording_http_apply:
  "recording_http mk m u d r (lg, s) =
     (fst (mk m u d r s), (lg @ [\<lparr> http_method = m, http_url = u \<rparr>], snd (mk m u d r s)))"
  by (simp add: recording_http_def split: prod.splits)

text \<open>
  Claim C1. When a required field of the identifier is empty (a \<^verbatim>\<open>TrackingID\<close> with
  empty id, a \<^verbatim>\<open>SlugTrackingNumber\<close> with empty slug or empty tracking number), \<open>URIPath\<close>
  fails with one of the two missing-identifier errors, and each of \<^verbatim>\<open>DeleteTracking\<close>,
  \<^verbatim>\<open>GetTracking\<close>, \<^verbatim>\<open>UpdateTracking\<close>, \<^verbatim>\<open>RetrackTracking\<close> and \<^verbatim>\<open>MarkTrackingAsCompleted\<close>
  returns that error, wrapped by \<^verbatim>\<open>errors.Wrap\<close> with the operation's message (its cause is
  the error of \<open>URIPath\<close>), with the zero tracking, and without any call of
  \<^verbatim>\<open>makeRequest\<close>: the log of the recording transport stays empty and the world is
  unchanged, whatever \<^verbatim>\<open>makeRequest\<close> is.
\<close>

theorem C1_blank_identifier_fails_fast:
  assumes blank: "ident = TrackingID [] \<or> ident = SlugTrackingNumber [] number
                  \<or> ident = SlugTrackingNumber slug []"
  shows "\<exists>e. URIPath ident = Inl e \<and> isMissingIdentifier e \<and>
     DeleteTracking (recording mk) ctx ident ([], s) =
       ((Tracking_zero, Some (Wrap e ''error deleting tracking'')), ([], s)) \<and>
     GetTracking (recording mk) ctx ident params ([], s) =
       ((Tracking_zero, Some (Wrap e ''error getting tracking'')), ([], s)) \<and>
     UpdateTracking (recording mk) ctx ident update ([], s) =
       ((Tracking_zero, Some (Wrap e ''error updating tracking'')), ([], s)) \<and>
     RetrackTracking (recording mk) ctx ident ([], s) =
       ((Tracking_zero, Some (Wrap e ''error retracking'')), ([], s)) \<and>
     MarkTrackingAsCompleted (recording mk) ctx ident reason ([], s) =
       ((Tracking_zero, Some (Wrap e ''error marking tracking as completed'')), ([], s)) \<and>
     (\<forall>msg. Cause (Wrap e msg) = e)"
proof -
  from blank obtain e where e: "URIPath ident = Inl e" and m: "isMissingIdentifier e"
    by (auto simp: isMissingIdentifier_def)
  from m have c: "\<forall>msg. Cause (Wrap e msg) = e"
    by (auto simp: isMissingIdentifier_def)
  show ?thesis
    using e m c
    by (simp add: DeleteTracking_def GetTracking_def UpdateTracking_def RetrackTracking_def
        MarkTrackingAsCompleted_def)
qed

text \<open>The same at the empty \<^verbatim>\<open>TrackingID\<close>, with the message of the error.\<close>

theorem C1_blank_identifier_fails_fast_witness:
  "URIPath (TrackingID []) = Inl (New ''tracking id is empty and must be provided'') \<and>
   DeleteTracking (recording (\<lambda>c m p q i r s. ((None, r), s))) () (TrackingID []) ([], ()) =
     ((Tracking_zero,
       Some (Wrap (New ''tracking id is empty and must be provided'') ''error deleting tracking'')),
      ([], ())) \<and>
   Cause (Wrap (New ''tracking id is empty and must be provided'') ''error deleting tracking'') =
     New ''tracking id is empty and must be provided''"
proof -
  have blank: "TrackingID [] = TrackingID [] \<or> TrackingID [] = SlugTrackingNumber [] []
        \<or> TrackingID [] = SlugTrackingNumber [] []"
    by simp
  from C1_blank_identifier_fails_fast
         [OF blank, where mk = "\<lambda>c m p q i r s. ((None, r), s)" and ctx = "()" and s = "()"]
  obtain e where "URIPath (TrackingID []) = Inl e"
    and "DeleteTracking (recording (\<lambda>c m p q i r s. ((None, r), s))) () (TrackingID []) ([], ()) =
           ((Tracking_zero, Some (Wrap e ''error deleting tracking'')), ([], ()))"
    by blast
  then show ?thesis
    by (auto simp: errMissingTrackingID_def)
qed

text \<open>
  Claim C9. \<^verbatim>\<open>CreateTracking\<close> with an empty tracking number returns the zero tracking
  and the error \<^verbatim>\<open>tracking number is empty and must be provided\<close>, and does not call
  \<^verbatim>\<open>makeRequest\<close>.
\<close>

theorem C9_CreateTracking_missing_number:
  assumes "CreateTrackingParams.TrackingNumber params = []"
  shows "CreateTracking (recording mk) ctx params ([], s) =
           ((Tracking_zero, Some (New errMissingTrackingNumber)), ([], s)) \<and>
         errMissingTrackingNumber = ''tracking number is empty and must be provided''"
  using assms by (simp add: CreateTracking_def errMissingTrackingNumber_def)

text \<open>The zero parameters have an empty tracking number.\<close>

theorem C9_CreateTracking_missing_number_witness:
  "CreateTracking (recording (\<lambda>c m p q i r s. ((None, r), s))) () CreateTrackingParams_zero ([], ()) =
     ((Tracking_zero, Some (New errMissingTrackingNumber)), ([], ()))"
proof -
  have "CreateTrackingParams.TrackingNumber CreateTrackingParams_zero = []"
    by (simp add: CreateTrackingParams_zero_def)
  from C9_CreateTracking_missing_number
         [OF this, where mk = "\<lambda>c m p q i r s. ((None, r), s)" and ctx = "()" and s = "()"]
  show ?thesis by simp
qed

text \<open>
  Claim C10. When the resolution of the identifier fails, each tracking operation that
  takes an identifier returns the zero \<^verbatim>\<open>Tracking\<close> with the error; when the building of
  the URL fails, each notification operation returns the zero \<^verbatim>\<open>Data\<close> with the error.
  The world is left as it was.
\<close>

theorem C10_zero_value_on_resolution_failure:
  "(URIPath ident = Inl e \<longrightarrow>
      DeleteTracking mk ctx ident s =
        ((Tracking_zero, Some (Wrap e ''error deleting tracking'')), s) \<and>
      GetTracking mk ctx ident params s =
        ((Tracking_zero, Some (Wrap e ''error getting tracking'')), s) \<and>
      UpdateTracking mk ctx ident update s =
        ((Tracking_zero, Some (Wrap e ''error updating tracking'')), s) \<and>
      RetrackTracking mk ctx ident s =
        ((Tracking_zero, Some (Wrap e ''error retracking'')), s) \<and>
      MarkTrackingAsCompleted mk ctx ident reason s =
        ((Tracking_zero, Some (Wrap e ''error marking tracking as completed'')), s)) \<and>
   (BuildTrackingURL param ''notifications'' ''add'' = Inl ea \<longrightarrow>
      AddNotification BuildTrackingURL MakeRequest Data_zero param data t =
        ((Data_zero, Some ea), t)) \<and>
   (BuildTrackingURL param ''notifications'' ''remove'' = Inl eb \<longrightarrow>
      RemoveNotification BuildTrackingURL MakeRequest Data_zero param data t =
        ((Data_zero, Some eb), t)) \<and>
   (BuildTrackingURL param ''notifications'' [] = Inl ec \<longrightarrow>
      GetNotification BuildTrackingURL MakeRequest Data_zero param t =
        ((Data_zero, Some ec), t))"
  by (simp add: DeleteTracking_def GetTracking_def UpdateTracking_def RetrackTracking_def
      MarkTrackingAsCompleted_def AddNotification_def RemoveNotification_def
      GetNotification_def)

text \<open>
  A slug without a tracking number, and a URL builder that fails, with a nonzero
  \<^verbatim>\<open>Data\<close> passed in.
\<close>

theorem C10_zero_value_on_resolution_failure_witness:
  "DeleteTracking (\<lambda>c m p q i r s. ((None, r), s)) () (SlugTrackingNumber ''dhl'' []) () =
     ((Tracking_zero,
       Some (Wrap (New errMissingSlugOrTrackingNumber) ''error deleting tracking'')), ()) \<and>
   AddNotification (\<lambda>p a b. Inl ''no identifier'') (\<lambda>m u d r s. ((None, r), s)) (0::nat) () 7 () =
     ((0, Some ''no identifier''), ()) \<and>
   RemoveNotification (\<lambda>p a b. Inl ''no identifier'') (\<lambda>m u d r s. ((None, r), s)) (0::nat) () 7 () =
     ((0, Some ''no identifier''), ()) \<and>
   GetNotification (\<lambda>p a b. Inl ''no identifier'') (\<lambda>m u d r s. ((None, r), s)) (0::nat) () () =
     ((0, Some ''no identifier''), ())"
  using C10_zero_value_on_resolution_failure
          [where ident = "SlugTrackingNumber ''dhl'' []"
             and e = "New errMissingSlugOrTrackingNumber"
             and mk = "\<lambda>c m p q i r s. ((None, r), s)" and ctx = "()" and s = "()"
             and BuildTrackingURL = "\<lambda>p a b. Inl ''no identifier''" and param = "()"
             and ea = "''no identifier''" and eb = "''no identifier''"
             and ec = "''no identifier''"
             and MakeRequest = "\<lambda>m u d r s. ((None, r), s)" and Data_zero = "0::nat"
             and data = "7" and t = "()"]
  by simp

text \<open>
  Claim C8. Each operation issues one request with a fixed method against a fixed path
  template around the resolved identifier: \<^verbatim>\<open>RetrackTracking\<close> sends \<^verbatim>\<open>POST\<close> to
  \<^verbatim>\<open>/trackings\<close>, the resolved identifier and \<^verbatim>\<open>/retrack\<close>; \<^verbatim>\<open>MarkTrackingAsCompleted\<close> sends
  \<^verbatim>\<open>POST\<close> to \<^verbatim>\<open>/trackings\<close>, the resolved identifier and \<^verbatim>\<open>/mark-as-completed\<close>;
  \<^verbatim>\<open>AddNotification\<close> sends \<^verbatim>\<open>POST\<close> to the URL that \<^verbatim>\<open>BuildTrackingURL\<close> builds for the
  tracking from \<^verbatim>\<open>notifications\<close> and \<^verbatim>\<open>add\<close>. The other operations are stated with them.
\<close>

theorem C8_fixed_method_and_path:
  "(URIPath ident = Inr p \<longrightarrow>
      fst (snd (RetrackTracking (recording mk) ctx ident ([], s))) =
        [\<lparr> call_ctx = ctx, call_method = ''POST'', call_path = ''/trackings'' @ p @ ''/retrack'',
            call_query = QNil, call_input = INil \<rparr>] \<and>
      fst (snd (MarkTrackingAsCompleted (recording mk) ctx ident reason ([], s))) =
        [\<lparr> call_ctx = ctx, call_method = ''POST'',
            call_path = ''/trackings'' @ p @ ''/mark-as-completed'',
            call_query = QNil, call_input = IMarkAsCompleted \<lparr> Reason = reason \<rparr> \<rparr>] \<and>
      fst (snd (DeleteTracking (recording mk) ctx ident ([], s))) =
        [\<lparr> call_ctx = ctx, call_method = ''DELETE'', call_path = ''/trackings'' @ p,
            call_query = QNil, call_input = INil \<rparr>] \<and>
      fst (snd (GetTracking (recording mk) ctx ident params ([], s))) =
        [\<lparr> call_ctx = ctx, call_method = ''GET'', call_path = ''/trackings'' @ p,
            call_query = QGetTrackingParams params, call_input = INil \<rparr>] \<and>
      fst (snd (UpdateTracking (recording mk) ctx ident update ([], s))) =
        [\<lparr> call_ctx = ctx, call_method = ''PUT'', call_path = ''/trackings'' @ p,
            call_query = QNil,
            call_input = IUpdateTracking \<lparr> updateTrackingRequest.Tracking = update \<rparr> \<rparr>]) \<and>
   (CreateTrackingParams.TrackingNumber new \<noteq> [] \<longrightarrow>
      fst (snd (CreateTracking (recording mk) ctx new ([], s))) =
        [\<lparr> call_ctx = ctx, call_method = ''POST'', call_path = ''/trackings'',
            call_query = QNil,
            call_input = ICreateTracking \<lparr> createTrackingRequest.Tracking = new \<rparr> \<rparr>]) \<and>
   fst (snd (GetTrackings (recording mkp) ctx list_params ([], s))) =
     [\<lparr> call_ctx = ctx, call_method = ''GET'', call_path = ''/trackings'',
         call_query = QGetTrackingsParams list_params, call_input = INil \<rparr>] \<and>
   (BuildTrackingURL param ''notifications'' ''add'' = Inr ua \<longrightarrow>
      fst (snd (AddNotification BuildTrackingURL (recording_http MakeRequest) Data_zero param data
                  ([], t))) =
        [\<lparr> http_method = ''POST'', http_url = ua \<rparr>]) \<and>
   (BuildTrackingURL param ''notifications'' ''remove'' = Inr ub \<longrightarrow>
      fst (snd (RemoveNotification BuildTrackingURL (recording_http MakeRequest) Data_zero param
                  data ([], t))) =
        [\<lparr> http_method = ''POST'', http_url = ub \<rparr>]) \<and>
   (BuildTrackingURL param ''notifications'' [] = Inr uc \<longrightarrow>
      fst (snd (GetNotification BuildTrackingURL (recording_http MakeRequest) Data_zero param
                  ([], t))) =
        [\<lparr> http_method = ''GET'', http_url = uc \<rparr>])"
proof -
  have tracking:
    "URIPath ident = Inr p \<Longrightarrow>
      fst (snd (RetrackTracking (recording mk) ctx ident ([], s))) =
        [\<lparr> call_ctx = ctx, call_method = ''POST'', call_path = ''/trackings'' @ p @ ''/retrack'',
            call_query = QNil, call_input = INil \<rparr>] \<and>
      fst (snd (MarkTrackingAsCompleted (recording mk) ctx ident reason ([], s))) =
        [\<lparr> call_ctx = ctx, call_method = ''POST'',
            call_path = ''/trackings'' @ p @ ''/mark-as-completed'',
            call_query = QNil, call_input = IMarkAsCompleted \<lparr> Reason = reason \<rparr> \<rparr>] \<and>
      fst (snd (DeleteTracking (recording mk) ctx ident ([], s))) =
        [\<lparr> call_ctx = ctx, call_method = ''DELETE'', call_path = ''/trackings'' @ p,
            call_query = QNil, call_input = INil \<rparr>] \<and>
      fst (snd (GetTracking (recording mk) ctx ident params ([], s))) =
        [\<lparr> call_ctx = ctx, call_method = ''GET'', call_path = ''/trackings'' @ p,
            call_query = QGetTrackingParams params, call_input = INil \<rparr>] \<and>
      fst (snd (UpdateTracking (recording mk) ctx ident update ([], s))) =
        [\<lparr> call_ctx = ctx, call_method = ''PUT'', call_path = ''/trackings'' @ p,
            call_query = QNil,
            call_input = IUpdateTracking \<lparr> updateTrackingRequest.Tracking = update \<rparr> \<rparr>]"
    by (simp add: RetrackTracking_def MarkTrackingAsCompleted_def DeleteTracking_def
        GetTracking_def UpdateTracking_def recording_apply MethodPost_def MethodDelete_def
        MethodGet_def MethodPut_def split: prod.splits)
  have create:
    "CreateTrackingParams.TrackingNumber new \<noteq> [] \<Longrightarrow>
      fst (snd (CreateTracking (recording mk) ctx new ([], s))) =
        [\<lparr> call_ctx = ctx, call_method = ''POST'', call_path = ''/trackings'',
            call_query = QNil,
            call_input = ICreateTracking \<lparr> createTrackingRequest.Tracking = new \<rparr> \<rparr>]"
    by (simp add: CreateTracking_def recording_apply MethodPost_def split: prod.splits)
  have list:
    "fst (snd (GetTrackings (recording mkp) ctx list_params ([], s))) =
     [\<lparr> call_ctx = ctx, call_method = ''GET'', call_path = ''/trackings'',
         call_query = QGetTrackingsParams list_params, call_input = INil \<rparr>]"
    by (simp add: GetTrackings_def recording_apply MethodGet_def split: prod.splits)
  have notif:
    "(BuildTrackingURL param ''notifications'' ''add'' = Inr ua \<longrightarrow>
      fst (snd (AddNotification BuildTrackingURL (recording_http MakeRequest) Data_zero param data
                  ([], t))) =
        [\<lparr> http_method = ''POST'', http_url = ua \<rparr>]) \<and>
     (BuildTrackingURL param ''notifications'' ''remove'' = Inr ub \<longrightarrow>
      fst (snd (RemoveNotification BuildTrackingURL (recording_http MakeRequest) Data_zero param
                  data ([], t))) =
        [\<lparr> http_method = ''POST'', http_url = ub \<rparr>]) \<and>
     (BuildTrackingURL param ''notifications'' [] = Inr uc \<longrightarrow>
      fst (snd (GetNotification BuildTrackingURL (recording_http MakeRequest) Data_zero param
                  ([], t))) =
        [\<lparr> http_method = ''GET'', http_url = uc \<rparr>])"
    by (simp add: AddNotification_def RemoveNotification_def GetNotification_def
        recording_http_apply split: prod.splits option.splits)
  from tracking create list notif show ?thesis by blast
qed


text \<open>
  The requests for the identifier \<^verbatim>\<open>abc123\<close>, for a new tracking, and for the
  notifications with a URL builder chosen for the example.
\<close>

theorem C8_fixed_method_and_path_witness:
  "fst (snd (RetrackTracking (recording (\<lambda>c m p q i r s. ((None, r), s))) ()
               (TrackingID ''abc123'') ([], ()))) =
     [\<lparr> call_ctx = (), call_method = ''POST'', call_path = ''/trackings/abc123/retrack'',
         call_query = QNil, call_input = INil \<rparr>] \<and>
   fst (snd (MarkTrackingAsCompleted (recording (\<lambda>c m p q i r s. ((None, r), s))) ()
               (TrackingID ''abc123'') TrackingCompletedStatusLost ([], ()))) =
     [\<lparr> call_ctx = (), call_method = ''POST'',
         call_path = ''/trackings/abc123/mark-as-completed'',
         call_query = QNil, call_input = IMarkAsCompleted \<lparr> Reason = ''LOST'' \<rparr> \<rparr>] \<and>
   fst (snd (CreateTracking (recording (\<lambda>c m p q i r s. ((None, r), s))) ()
               (CreateTrackingParams_zero \<lparr> CreateTrackingParams.TrackingNumber := ''RA123'' \<rparr>)
               ([], ()))) =
     [\<lparr> call_ctx = (), call_method = ''POST'', call_path = ''/trackings'', call_query = QNil,
         call_input = ICreateTracking \<lparr> createTrackingRequest.Tracking =
           CreateTrackingParams_zero \<lparr> CreateTrackingParams.TrackingNumber := ''RA123'' \<rparr> \<rparr> \<rparr>] \<and>
   fst (snd (AddNotification (\<lambda>p a b. Inr (''/'' @ a @ ''/'' @ p @ ''/'' @ b))
               (recording_http (\<lambda>m u d r s. ((None :: unit option, r), s))) (0::nat) ''id1'' 7
               ([], ()))) =
     [\<lparr> http_method = ''POST'', http_url = ''/notifications/id1/add'' \<rparr>] \<and>
   fst (snd (RemoveNotification (\<lambda>p a b. Inr (''/'' @ a @ ''/'' @ p @ ''/'' @ b))
               (recording_http (\<lambda>m u d r s. ((None :: unit option, r), s))) (0::nat) ''id1'' 7
               ([], ()))) =
     [\<lparr> http_method = ''POST'', http_url = ''/notifications/id1/remove'' \<rparr>] \<and>
   fst (snd (GetNotification (\<lambda>p a b. Inr (''/'' @ a @ ''/'' @ p @ ''/'' @ b))
               (recording_http (\<lambda>m u d r s. ((None :: unit option, r), s))) (0::nat) ''id1''
               ([], ()))) =
     [\<lparr> http_method = ''GET'', http_url = ''/notifications/id1/'' \<rparr>]"
proof -
  have p: "URIPath (TrackingID ''abc123'') = Inr ''/abc123''"
    by (simp add: PathEscape_def escape_def escape_byte_def shouldEscape_def)
  have n: "CreateTrackingParams.TrackingNumber
             (CreateTrackingParams_zero \<lparr> CreateTrackingParams.TrackingNumber := ''RA123'' \<rparr>) \<noteq> []"
    by simp
  show ?thesis
    using C8_fixed_method_and_path
            [where ident = "TrackingID ''abc123''" and p = "''/abc123''"
               and mk = "\<lambda>c m p q i r s. ((None, r), s)" and ctx = "()" and s = "()"
               and reason = TrackingCompletedStatusLost
               and new = "CreateTrackingParams_zero \<lparr> CreateTrackingParams.TrackingNumber := ''RA123'' \<rparr>"
               and BuildTrackingURL = "\<lambda>p a b. Inr (''/'' @ a @ ''/'' @ p @ ''/'' @ b)"
               and param = "''id1''" and ua = "''/notifications/id1/add''"
               and ub = "''/notifications/id1/remove''" and uc = "''/notifications/id1/''"
               and MakeRequest = "\<lambda>m u d r s. ((None :: unit option, r), s)"
               and Data_zero = "0::nat" and data = "7" and t = "()"]
          p n
    by (simp add: TrackingCompletedStatusLost_def)
qed

section \<open>Properties of the request engine\<close>

subsection \<open>Query serialization\<close>











subsection \<open>The parameter structs as JSON\<close>































subsection \<open>The envelope\<close>




subsection \<open>The classifier\<close>

lemma decode_error_body_Some:
  assumes "decode_error_body st b = Some e"
  obtains members c t m p where "b = Some (JObject members)"
    and "int_member members ''code'' = Some c"
    and "string_member members ''type'' = Some t"
    and "string_member members ''message'' = Some m"
    and "string_member members ''path'' = Some p"
    and "e = \<lparr> Code = c, Type = t, Message = m, Path = p, HTTPStatusCode = st \<rparr>"
proof (cases b)
  case None
  with assms show ?thesis by simp
next
  case (Some j)
  show ?thesis
  proof (cases j)
    case (JObject members)
    with Some assms have
      "(case (int_member members ''code'', string_member members ''type'',
            string_member members ''message'', string_member members ''path'') of
        (Some c, Some t, Some m, Some p) \<Rightarrow>
          Some \<lparr> Code = c, Type = t, Message = m, Path = p, HTTPStatusCode = st \<rparr>
      | other \<Rightarrow> None) = Some e" by simp
    then obtain c t m p where "int_member members ''code'' = Some c"
      "string_member members ''type'' = Some t"
      "string_member members ''message'' = Some m"
      "string_member members ''path'' = Some p"
      "e = \<lparr> Code = c, Type = t, Message = m, Path = p, HTTPStatusCode = st \<rparr>"
      by (auto split: option.splits)
    with that Some JObject show ?thesis by blast
  qed (use Some assms in simp_all)
qed

lemma decode_error_body_status:
  "decode_error_body st b = Some e \<Longrightarrow> HTTPStatusCode e = st"
  by (erule decode_error_body_Some) simp

lemma decode_error_body_code:
  assumes "decode_error_body st (Some (JObject members)) = Some e"
    and "map_of members ''code'' = Some (JNumber n)"
  shows "Code e = n"
proof -
  from assms(2) have "int_member members ''code'' = Some n"
    by (simp add: int_member_def)
  with assms(1) show ?thesis
    by (auto split: option.splits)
qed

lemma kind_classify_Some:
  "decode_error_body (status r) (parsed_body r) = Some e \<Longrightarrow>
   kind (classify r) =
     (if status r = 429 then RateLimitedError
      else if status r = 401 \<or> status r = 403 then AuthenticationError
      else if status r = 404 then NotFoundError
      else if 400 \<le> status r \<and> status r < 500 then ValidationError
      else if 500 \<le> status r \<and> status r < 600 then ServerError
      else DecodeError)"
  by (cases "status r = 429") (simp_all add: classify_def)
lemma kind_classify_by_status:
  assumes "status r = status r'"
    and "decode_error_body (status r) (parsed_body r) \<noteq> None"
    and "decode_error_body (status r') (parsed_body r') \<noteq> None"
  shows "kind (classify r) = kind (classify r')"
proof -
  from assms obtain e e' where e: "decode_error_body (status r) (parsed_body r) = Some e"
    and e': "decode_error_body (status r') (parsed_body r') = Some e'" by blast
  show ?thesis
    unfolding kind_classify_Some [OF e] kind_classify_Some [OF e'] assms(1) ..
qed

lemma kind_classify_closed:
  "kind (classify r) \<in> {ValidationError, AuthenticationError, NotFoundError,
                          RateLimitedError, ServerError, DecodeError}"
  by (simp add: classify_def split: option.splits)

lemma classify_404:
  assumes s: "status r = 404" and d: "decode_error_body (status r) (parsed_body r) = Some e"
  shows "classify r = NotFound e" and "HTTPStatusCode e = 404"
proof -
  from s d show "classify r = NotFound e" by (simp add: classify_def)
  from decode_error_body_status [OF d] s show "HTTPStatusCode e = 404" by simp
qed

lemma classify_429:
  assumes s: "status r = 429"
  shows "\<exists>e'. classify r = RateLimited e' (rate_limit r) \<and> HTTPStatusCode e' = 429"
proof (cases "decode_error_body (status r) (parsed_body r)")
  case None
  with s show ?thesis by (simp add: classify_def generic_APIError_def)
next
  case (Some a)
  with s decode_error_body_status [OF Some] show ?thesis by (simp add: classify_def)
qed

lemma kind_classify_None:
  "decode_error_body (status r) (parsed_body r) = None \<Longrightarrow>
   classify r = (if status r = 429 then RateLimited (generic_APIError 429) (rate_limit r)
                 else Decode (status r) (raw_body r))"
  by (cases "status r = 429") (simp_all add: classify_def)

lemma kind_classify_by_status_and_schema:
  assumes s: "status r = status r'"
    and b: "decode_error_body (status r) (parsed_body r) = None \<longleftrightarrow>
            decode_error_body (status r') (parsed_body r') = None"
  shows "kind (classify r) = kind (classify r')"
proof (cases "decode_error_body (status r) (parsed_body r)")
  case None
  with b have n': "decode_error_body (status r') (parsed_body r') = None" by simp
  show ?thesis
    unfolding kind_classify_None [OF None] kind_classify_None [OF n'] s by simp
next
  case (Some e)
  with b obtain e' where "decode_error_body (status r') (parsed_body r') = Some e'" by auto
  with Some s show ?thesis
    using kind_classify_by_status [of r r'] by simp
qed

text \<open>
  Claim C4. The classifier maps every response to one kind of the taxonomy (a kind of
  an API response, never a transport error or a missing identifier). The kind is a
  function of the status and of whether the body follows the error schema, not of the
  status alone: a body that does not follow the schema, on a status other than 429, is a
  \<^verbatim>\<open>DecodeError\<close> with the raw status and the raw body. A 404 whose body follows the
  schema is a \<^verbatim>\<open>NotFoundError\<close> that carries the code of the body and the status 404; a
  429 is a \<^verbatim>\<open>RateLimitedError\<close> that carries the Rate Limit State of the response and the
  status 429.
\<close>

theorem C4_classifier:
  "kind (classify r) \<in> {ValidationError, AuthenticationError, NotFoundError,
                          RateLimitedError, ServerError, DecodeError} \<and>
   (status r = status r' \<and>
    (decode_error_body (status r) (parsed_body r) = None \<longleftrightarrow>
     decode_error_body (status r') (parsed_body r') = None) \<longrightarrow>
      kind (classify r) = kind (classify r')) \<and>
   (status r \<noteq> 429 \<and> decode_error_body (status r) (parsed_body r) = None \<longrightarrow>
      classify r = Decode (status r) (raw_body r)) \<and>
   (status r = 404 \<and> decode_error_body (status r) (parsed_body r) = Some e \<longrightarrow>
      classify r = NotFound e \<and> HTTPStatusCode e = 404 \<and>
      (\<forall>members n. parsed_body r = Some (JObject members) \<and>
                    map_of members ''code'' = Some (JNumber n) \<longrightarrow> Code e = n)) \<and>
   (status r = 429 \<longrightarrow>
      (\<exists>e'. classify r = RateLimited e' (rate_limit r) \<and> HTTPStatusCode e' = 429))"
proof (intro conjI impI allI)
  show "kind (classify r) \<in> {ValidationError, AuthenticationError, NotFoundError,
                            RateLimitedError, ServerError, DecodeError}"
    by (rule kind_classify_closed)
next
  assume a: "status r = status r' \<and>
    (decode_error_body (status r) (parsed_body r) = None \<longleftrightarrow>
     decode_error_body (status r') (parsed_body r') = None)"
  from a have s: "status r = status r'" by (rule conjunct1)
  from a have b: "decode_error_body (status r) (parsed_body r) = None \<longleftrightarrow>
                  decode_error_body (status r') (parsed_body r') = None" by (rule conjunct2)
  show "kind (classify r) = kind (classify r')"
    by (rule kind_classify_by_status_and_schema [OF s b])
next
  assume "status r \<noteq> 429 \<and> decode_error_body (status r) (parsed_body r) = None"
  then show "classify r = Decode (status r) (raw_body r)"
    using kind_classify_None [of r] by simp
next
  assume a: "status r = 404 \<and> decode_error_body (status r) (parsed_body r) = Some e"
  then show "classify r = NotFound e" using classify_404(1) by blast
  from a show "HTTPStatusCode e = 404" using classify_404(2) by blast
  fix members n
  assume b: "parsed_body r = Some (JObject members) \<and> map_of members ''code'' = Some (JNumber n)"
  from b have pb: "parsed_body r = Some (JObject members)"
    and mc: "map_of members ''code'' = Some (JNumber n)" by blast+
  from a have "decode_error_body (status r) (parsed_body r) = Some e" by blast
  then have "decode_error_body (status r) (Some (JObject members)) = Some e"
    unfolding pb .
  from decode_error_body_code [OF this mc] show "Code e = n" .
next
  assume "status r = 429"
  then show "\<exists>e'. classify r = RateLimited e' (rate_limit r) \<and> HTTPStatusCode e' = 429"
    by (rule classify_429)
qed

text \<open>
  The 404 of the specification with code 4004, a 404 with an empty object as body (the
  same kind), a 404 whose body is not JSON, and a 429 whose body is not JSON.
\<close>

theorem C4_classifier_witness:
  "classify not_found_response =
     NotFound \<lparr> Code = 4004, Type = [], Message = ''not found'', Path = [],
                HTTPStatusCode = 404 \<rparr> \<and>
   kind (classify (not_found_response \<lparr> parsed_body := Some (JObject []) \<rparr>)) =
     kind (classify not_found_response) \<and>
   classify unreadable_not_found_response = Decode 404 ''Not Found'' \<and>
   (\<exists>e'. classify rate_limited_response =
            RateLimited e' \<lparr> limit = 10, remaining = 0, resetAt = 102 \<rparr> \<and>
          HTTPStatusCode e' = 429)"
proof -
  let ?e = "\<lparr> Code = 4004, Type = [], Message = ''not found'', Path = [],
              HTTPStatusCode = 404 \<rparr>"
  let ?r' = "not_found_response \<lparr> parsed_body := Some (JObject []) \<rparr>"
  have d: "decode_error_body (status not_found_response) (parsed_body not_found_response) =
             Some ?e"
    by (simp add: not_found_response_def int_member_def string_member_def)
  have d': "decode_error_body (status ?r') (parsed_body ?r') \<noteq> None"
    by (simp add: int_member_def string_member_def)
  have u: "status unreadable_not_found_response \<noteq> 429"
    "decode_error_body (status unreadable_not_found_response)
       (parsed_body unreadable_not_found_response) = None"
    "status unreadable_not_found_response = 404"
    "raw_body unreadable_not_found_response = ''Not Found''"
    by (simp_all add: unreadable_not_found_response_def)
  have s: "status not_found_response = 404" "status ?r' = status not_found_response"
    and s2: "status rate_limited_response = 429"
    by (simp_all add: not_found_response_def rate_limited_response_def)
  from C4_classifier [where r = not_found_response and e = ?e] d s
  have one: "classify not_found_response = NotFound ?e" by blast
  from C4_classifier [where r = ?r' and r' = not_found_response] d d' s
  have same: "kind (classify ?r') = kind (classify not_found_response)" by simp
  from C4_classifier [where r = unreadable_not_found_response] u
  have three: "classify unreadable_not_found_response = Decode 404 ''Not Found''" by simp
  from C4_classifier [where r = rate_limited_response] s2
  have two: "\<exists>e'. classify rate_limited_response =
                 RateLimited e' (rate_limit rate_limited_response) \<and> HTTPStatusCode e' = 429"
    by blast
  from one same three two show ?thesis by (simp add: rate_limited_response_def)
qed

text \<open>
  The status alone does not give the kind: of two responses with the status 404, the one
  with the error body of the specification is a \<^verbatim>\<open>NotFoundError\<close>, the one whose body is
  not JSON a \<^verbatim>\<open>DecodeError\<close>.
\<close>

theorem C4_kind_by_status_counterexample:
  "status not_found_response = status unreadable_not_found_response \<and>
   \<not> (200 \<le> status not_found_response \<and> status not_found_response < 300) \<and>
   kind (classify not_found_response) = NotFoundError \<and>
   kind (classify unreadable_not_found_response) = DecodeError"
  by (simp add: not_found_response_def unreadable_not_found_response_def classify_def
      int_member_def string_member_def)

subsection \<open>Dispatch and retry\<close>

lemma dispatch_world:
  "snd (dispatch c dec rq w) = w \<lparr> sent := sent w @ [build_http_request c rq] \<rparr>"
  by (simp add: dispatch_def Let_def split: outcome.splits sum.splits)

lemma dispatch_sent [simp]:
  "sent (snd (dispatch c dec rq w)) = sent w @ [build_http_request c rq]"
  by (simp add: dispatch_world)

lemma dispatch_clock [simp]: "clock (snd (dispatch c dec rq w)) = clock w"
  by (simp add: dispatch_world)

lemma execute_not_rate_limited:
  assumes "\<forall>e rl. fst (dispatch c dec rq w) \<noteq> Inl (RateLimited e rl)"
  shows "execute c dec ctx rq w = dispatch c dec rq w"
proof (cases "dispatch c dec rq w")
  case (Pair res w1)
  with assms have "\<forall>e rl. res \<noteq> Inl (RateLimited e rl)" by simp
  with Pair show ?thesis
    by (simp add: execute_def split: sum.splits failure.splits)
qed

lemma execute_rate_limited:
  assumes "fst (dispatch c dec rq w) = Inl (RateLimited e rl)"
  shows "execute c dec ctx rq w =
     (let w1 = snd (dispatch c dec rq w); until = clock w + wait_duration rl (clock w) in
      if canceled_before ctx until \<or> deadline_exceeded ctx until
      then (Inl (RateLimited e rl), w1 \<lparr> clock := abort_time ctx (clock w) until \<rparr>)
      else dispatch c dec rq (w1 \<lparr> clock := until \<rparr>))"
proof (cases "dispatch c dec rq w")
  case (Pair res w1)
  with assms have r: "res = Inl (RateLimited e rl)" by simp
  have "clock w1 = clock w" using dispatch_clock [of c dec rq w] Pair by simp
  with Pair r show ?thesis
    by (simp add: execute_def Let_def)
qed

lemma dispatch_429:
  assumes "transport c (build_http_request c rq) (length (sent w)) = Response r"
    and "status r = 429"
  shows "\<exists>e. fst (dispatch c dec rq w) = Inl (RateLimited e (rate_limit r)) \<and>
             classify r = RateLimited e (rate_limit r)"
  using assms by (simp add: dispatch_def Let_def classify_def split: option.splits)

text \<open>
  Claim C2. A call makes at most two HTTP attempts. When the first attempt does not end
  in a rate limit, its result is returned after that single attempt: no other kind of
  error, and no success, is retried. When it ends in a rate limit and the context does
  not end the wait, the dispatcher is invoked exactly once more, after the wait, and
  the result of that second invocation is the result of the call; so when the transport
  answers 429 twice in a row, the second rate-limit error is returned after exactly two
  attempts.
\<close>

theorem C2_single_retry:
  "length (sent (snd (execute c dec ctx rq w))) \<le> length (sent w) + 2 \<and>
   ((\<forall>e rl. fst (dispatch c dec rq w) \<noteq> Inl (RateLimited e rl)) \<longrightarrow>
      execute c dec ctx rq w = dispatch c dec rq w \<and>
      sent (snd (execute c dec ctx rq w)) = sent w @ [build_http_request c rq]) \<and>
   (fst (dispatch c dec rq w) = Inl (RateLimited e rl) \<and>
    \<not> canceled_before ctx (clock w + wait_duration rl (clock w)) \<and>
    \<not> deadline_exceeded ctx (clock w + wait_duration rl (clock w)) \<longrightarrow>
      execute c dec ctx rq w =
        dispatch c dec rq (snd (dispatch c dec rq w) \<lparr> clock := clock w + wait_duration rl (clock w) \<rparr>) \<and>
      sent (snd (execute c dec ctx rq w)) =
        sent w @ [build_http_request c rq, build_http_request c rq]) \<and>
   (transport c (build_http_request c rq) (length (sent w)) = Response ra \<and> status ra = 429 \<and>
    transport c (build_http_request c rq) (Suc (length (sent w))) = Response rb \<and> status rb = 429 \<and>
    \<not> canceled_before ctx (clock w + wait_duration (rate_limit ra) (clock w)) \<and>
    \<not> deadline_exceeded ctx (clock w + wait_duration (rate_limit ra) (clock w)) \<longrightarrow>
      fst (execute c dec ctx rq w) = Inl (classify rb) \<and>
      kind (classify rb) = RateLimitedError \<and>
      length (sent (snd (execute c dec ctx rq w))) = length (sent w) + 2)"
proof -
  let ?h = "build_http_request c rq"
  have other: "execute c dec ctx rq w = dispatch c dec rq w \<and>
      sent (snd (execute c dec ctx rq w)) = sent w @ [?h]"
    if "\<forall>e rl. fst (dispatch c dec rq w) \<noteq> Inl (RateLimited e rl)"
    using execute_not_rate_limited [OF that] by simp
  have retry: "execute c dec ctx rq w =
        dispatch c dec rq (snd (dispatch c dec rq w) \<lparr> clock := clock w + wait_duration rl' (clock w) \<rparr>) \<and>
      sent (snd (execute c dec ctx rq w)) = sent w @ [?h, ?h]"
    if "fst (dispatch c dec rq w) = Inl (RateLimited e' rl')"
      and "\<not> canceled_before ctx (clock w + wait_duration rl' (clock w))"
      and "\<not> deadline_exceeded ctx (clock w + wait_duration rl' (clock w))"
    for e' rl'
    using execute_rate_limited [OF that(1), where ctx = ctx] that(2,3) by (simp add: Let_def)
  have bound: "length (sent (snd (execute c dec ctx rq w))) \<le> length (sent w) + 2"
  proof (cases "\<forall>e rl. fst (dispatch c dec rq w) \<noteq> Inl (RateLimited e rl)")
    case True
    from other [OF True] show ?thesis by simp
  next
    case False
    then obtain e' rl' where f: "fst (dispatch c dec rq w) = Inl (RateLimited e' rl')" by blast
    show ?thesis
      using execute_rate_limited [OF f, where ctx = ctx] by (simp add: Let_def)
  qed
  have twice: "fst (execute c dec ctx rq w) = Inl (classify rb) \<and>
      kind (classify rb) = RateLimitedError \<and>
      length (sent (snd (execute c dec ctx rq w))) = length (sent w) + 2"
    if t1: "transport c ?h (length (sent w)) = Response ra" and s1: "status ra = 429"
      and t2: "transport c ?h (Suc (length (sent w))) = Response rb" and s2: "status rb = 429"
      and nc: "\<not> canceled_before ctx (clock w + wait_duration (rate_limit ra) (clock w))"
      and nd: "\<not> deadline_exceeded ctx (clock w + wait_duration (rate_limit ra) (clock w))"
  proof -
    from dispatch_429 [OF t1 s1] obtain e1
      where d1: "fst (dispatch c dec rq w) = Inl (RateLimited e1 (rate_limit ra))" by blast
    let ?w1 = "snd (dispatch c dec rq w) \<lparr> clock := clock w + wait_duration (rate_limit ra) (clock w) \<rparr>"
    from retry [OF d1 nc nd] have ex: "execute c dec ctx rq w = dispatch c dec rq ?w1"
      and sn: "sent (snd (execute c dec ctx rq w)) = sent w @ [?h, ?h]" by simp_all
    have "transport c ?h (length (sent ?w1)) = Response rb" using t2 by simp
    from dispatch_429 [OF this s2] obtain e2
      where "fst (dispatch c dec rq ?w1) = Inl (RateLimited e2 (rate_limit rb))"
        and "classify rb = RateLimited e2 (rate_limit rb)" by blast
    with ex sn show ?thesis by simp
  qed
  from bound other retry [of e rl] twice show ?thesis by blast
qed

text \<open>
  A transport that always answers 429 (two attempts, the rate-limit error of the second
  returned) and one that always answers 404 (one attempt).
\<close>

theorem C2_single_retry_witness:
  "fst (execute always_limited Some no_limits get_trackings_request start) =
     Inl (RateLimited (generic_APIError 429) \<lparr> limit = 10, remaining = 0, resetAt = 102 \<rparr>) \<and>
   length (sent (snd (execute always_limited Some no_limits get_trackings_request start))) = 2 \<and>
   fst (execute never_found Some no_limits get_trackings_request start) =
     Inl (NotFound \<lparr> Code = 4004, Type = [], Message = ''not found'', Path = [],
                     HTTPStatusCode = 404 \<rparr>) \<and>
   length (sent (snd (execute never_found Some no_limits get_trackings_request start))) = 1"
proof -
  let ?h = "build_http_request always_limited get_trackings_request"
  have t1: "transport always_limited ?h (length (sent start)) = Response rate_limited_response"
    and t2: "transport always_limited ?h (Suc (length (sent start))) = Response rate_limited_response"
    by (simp_all add: always_limited_def)
  have s: "status rate_limited_response = 429"
    by (simp add: rate_limited_response_def)
  have nc: "\<not> canceled_before no_limits
              (clock start + wait_duration (rate_limit rate_limited_response) (clock start))"
    and nd: "\<not> deadline_exceeded no_limits
              (clock start + wait_duration (rate_limit rate_limited_response) (clock start))"
    by (simp_all add: canceled_before_def deadline_exceeded_def no_limits_def)
  have c: "classify rate_limited_response =
      RateLimited (generic_APIError 429) \<lparr> limit = 10, remaining = 0, resetAt = 102 \<rparr>"
    by (simp add: classify_def rate_limited_response_def)
  have d: "fst (dispatch never_found Some get_trackings_request start) =
      Inl (NotFound \<lparr> Code = 4004, Type = [], Message = ''not found'', Path = [],
                     HTTPStatusCode = 404 \<rparr>)"
    by (simp add: dispatch_def Let_def never_found_def not_found_response_def classify_def
        int_member_def string_member_def)
  then have o: "\<forall>e rl. fst (dispatch never_found Some get_trackings_request start) \<noteq> Inl (RateLimited e rl)"
    by simp
  from C2_single_retry [where c = always_limited and dec = Some and ctx = no_limits
                          and rq = get_trackings_request and w = start
                          and ra = rate_limited_response and rb = rate_limited_response]
       t1 t2 s nc nd c
  have limited: "fst (execute always_limited Some no_limits get_trackings_request start) =
       Inl (RateLimited (generic_APIError 429) \<lparr> limit = 10, remaining = 0, resetAt = 102 \<rparr>) \<and>
     length (sent (snd (execute always_limited Some no_limits get_trackings_request start))) = 2"
    by (simp add: start_def)
  from C2_single_retry [where c = never_found and dec = Some and ctx = no_limits
                          and rq = get_trackings_request and w = start] o d
  have other: "fst (execute never_found Some no_limits get_trackings_request start) =
       Inl (NotFound \<lparr> Code = 4004, Type = [], Message = ''not found'', Path = [],
                     HTTPStatusCode = 404 \<rparr>) \<and>
     length (sent (snd (execute never_found Some no_limits get_trackings_request start))) = 1"
    by (simp add: start_def)
  from limited other show ?thesis by blast
qed

text \<open>
  Claim C3. After a rate limit the wait is the reset time of the Rate Limit State minus
  the current time, floored at zero: when the context does not end the wait, the second
  attempt is made, and the call returns, at the current time plus that wait. When the
  context is canceled before the wait would complete, or its deadline would be exceeded
  before then, the call returns the original rate-limit error after the single attempt,
  and it returns at once: at the current time when the deadline would be exceeded, and
  otherwise at the time of the cancellation (at the current time when the context was
  canceled already). So it returns before the wait would have ended whenever there is a
  wait, and never after a deadline that had not passed when the wait began.
\<close>

theorem C3_wait_and_abort:
  "fst (dispatch c dec rq w) = Inl (RateLimited e rl) \<longrightarrow>
     wait_duration rl (clock w) = max 0 (resetAt rl - clock w) \<and>
     (\<not> canceled_before ctx (clock w + wait_duration rl (clock w)) \<and>
      \<not> deadline_exceeded ctx (clock w + wait_duration rl (clock w)) \<longrightarrow>
        clock (snd (execute c dec ctx rq w)) = clock w + max 0 (resetAt rl - clock w)) \<and>
     (canceled_before ctx (clock w + wait_duration rl (clock w)) \<or>
      deadline_exceeded ctx (clock w + wait_duration rl (clock w)) \<longrightarrow>
        fst (execute c dec ctx rq w) = Inl (RateLimited e rl) \<and>
        sent (snd (execute c dec ctx rq w)) = sent w @ [build_http_request c rq] \<and>
        (deadline_exceeded ctx (clock w + wait_duration rl (clock w)) \<longrightarrow>
           clock (snd (execute c dec ctx rq w)) = clock w) \<and>
        (\<forall>t. \<not> deadline_exceeded ctx (clock w + wait_duration rl (clock w)) \<and>
              canceled_at ctx = Some t \<longrightarrow>
           clock (snd (execute c dec ctx rq w)) = max (clock w) t) \<and>
        (0 < wait_duration rl (clock w) \<longrightarrow>
           clock (snd (execute c dec ctx rq w)) < clock w + wait_duration rl (clock w)) \<and>
        clock w \<le> clock (snd (execute c dec ctx rq w)) \<and>
        clock (snd (execute c dec ctx rq w)) \<le> clock w + wait_duration rl (clock w) \<and>
        (\<forall>d. deadline ctx = Some d \<and> clock w \<le> d \<longrightarrow> clock (snd (execute c dec ctx rq w)) \<le> d))"
proof
  assume f: "fst (dispatch c dec rq w) = Inl (RateLimited e rl)"
  let ?until = "clock w + wait_duration rl (clock w)"
  let ?end = "clock (snd (execute c dec ctx rq w))"
  have wd: "wait_duration rl (clock w) = max 0 (resetAt rl - clock w)"
    by (simp add: wait_duration_def Let_def max_def)
  have go: "?end = clock w + max 0 (resetAt rl - clock w)"
    if "\<not> canceled_before ctx ?until" "\<not> deadline_exceeded ctx ?until"
    using execute_rate_limited [OF f, where ctx = ctx] that wd by (simp add: Let_def)
  have nonneg: "0 \<le> wait_duration rl (clock w)"
    by (simp add: wd)
  have stop: "fst (execute c dec ctx rq w) = Inl (RateLimited e rl) \<and>
        sent (snd (execute c dec ctx rq w)) = sent w @ [build_http_request c rq] \<and>
        (deadline_exceeded ctx ?until \<longrightarrow> ?end = clock w) \<and>
        (\<forall>t. \<not> deadline_exceeded ctx ?until \<and> canceled_at ctx = Some t \<longrightarrow>
           ?end = max (clock w) t) \<and>
        (0 < wait_duration rl (clock w) \<longrightarrow> ?end < ?until) \<and>
        clock w \<le> ?end \<and>
        ?end \<le> ?until \<and>
        (\<forall>d. deadline ctx = Some d \<and> clock w \<le> d \<longrightarrow> ?end \<le> d)"
    if a: "canceled_before ctx ?until \<or> deadline_exceeded ctx ?until"
  proof -
    have ex: "execute c dec ctx rq w =
        (Inl (RateLimited e rl), snd (dispatch c dec rq w) \<lparr> clock := abort_time ctx (clock w) ?until \<rparr>)"
      using execute_rate_limited [OF f, where ctx = ctx] a by (simp add: Let_def)
    then have en: "?end = abort_time ctx (clock w) ?until"
      by simp
    have now: "deadline_exceeded ctx ?until \<Longrightarrow> abort_time ctx (clock w) ?until = clock w"
      by (simp add: abort_time_def)
    have cancel: "abort_time ctx (clock w) ?until = max (clock w) t"
      if "\<not> deadline_exceeded ctx ?until" "canceled_at ctx = Some t" for t
      using that by (simp add: abort_time_def)
    have t1: "clock w \<le> abort_time ctx (clock w) ?until"
      by (simp add: abort_time_def split: option.splits)
    have t2: "abort_time ctx (clock w) ?until \<le> ?until"
      using a nonneg
      by (auto simp: abort_time_def canceled_before_def deadline_exceeded_def split: option.splits)
    have t2': "abort_time ctx (clock w) ?until < ?until" if "0 < wait_duration rl (clock w)"
      using a that
      by (auto simp: abort_time_def canceled_before_def deadline_exceeded_def split: option.splits)
    have t3: "abort_time ctx (clock w) ?until \<le> d" if "deadline ctx = Some d" "clock w \<le> d" for d
      using a that
      by (auto simp: abort_time_def canceled_before_def deadline_exceeded_def split: option.splits)
    from ex have r: "fst (execute c dec ctx rq w) = Inl (RateLimited e rl)"
      and s: "sent (snd (execute c dec ctx rq w)) = sent w @ [build_http_request c rq]"
      by simp_all
    from r s now cancel t1 t2 t2' t3 show ?thesis
      unfolding en by blast
  qed
  from wd go stop
  show "wait_duration rl (clock w) = max 0 (resetAt rl - clock w) \<and>
     (\<not> canceled_before ctx ?until \<and> \<not> deadline_exceeded ctx ?until \<longrightarrow>
        ?end = clock w + max 0 (resetAt rl - clock w)) \<and>
     (canceled_before ctx ?until \<or> deadline_exceeded ctx ?until \<longrightarrow>
        fst (execute c dec ctx rq w) = Inl (RateLimited e rl) \<and>
        sent (snd (execute c dec ctx rq w)) = sent w @ [build_http_request c rq] \<and>
        (deadline_exceeded ctx ?until \<longrightarrow> ?end = clock w) \<and>
        (\<forall>t. \<not> deadline_exceeded ctx ?until \<and> canceled_at ctx = Some t \<longrightarrow>
           ?end = max (clock w) t) \<and>
        (0 < wait_duration rl (clock w) \<longrightarrow> ?end < ?until) \<and>
        clock w \<le> ?end \<and>
        ?end \<le> ?until \<and>
        (\<forall>d. deadline ctx = Some d \<and> clock w \<le> d \<longrightarrow> ?end \<le> d))"
    by blast
qed

text \<open>
  Reset at 102 with the clock at 100: without limits the call returns at 102. With a
  deadline at 101 it returns the rate-limit error of the first attempt at 100, after one
  attempt; with a cancellation at 101 it returns that error at 101, after one attempt.
\<close>

theorem C3_wait_and_abort_witness:
  "clock (snd (execute always_limited Some no_limits get_trackings_request start)) = 102 \<and>
   fst (execute always_limited Some \<lparr> canceled_at = None, deadline = Some 101 \<rparr>
          get_trackings_request start) =
     Inl (RateLimited (generic_APIError 429) \<lparr> limit = 10, remaining = 0, resetAt = 102 \<rparr>) \<and>
   length (sent (snd (execute always_limited Some \<lparr> canceled_at = None, deadline = Some 101 \<rparr>
          get_trackings_request start))) = 1 \<and>
   clock (snd (execute always_limited Some \<lparr> canceled_at = None, deadline = Some 101 \<rparr>
          get_trackings_request start)) = 100 \<and>
   fst (execute always_limited Some \<lparr> canceled_at = Some 101, deadline = None \<rparr>
          get_trackings_request start) =
     Inl (RateLimited (generic_APIError 429) \<lparr> limit = 10, remaining = 0, resetAt = 102 \<rparr>) \<and>
   length (sent (snd (execute always_limited Some \<lparr> canceled_at = Some 101, deadline = None \<rparr>
          get_trackings_request start))) = 1 \<and>
   clock (snd (execute always_limited Some \<lparr> canceled_at = Some 101, deadline = None \<rparr>
          get_trackings_request start)) = 101"
proof -
  let ?rl = "\<lparr> limit = 10, remaining = 0, resetAt = 102 \<rparr>"
  let ?dl = "\<lparr> canceled_at = None, deadline = Some (101::int) \<rparr>"
  let ?cn = "\<lparr> canceled_at = Some (101::int), deadline = None \<rparr>"
  have d: "fst (dispatch always_limited Some get_trackings_request start) =
      Inl (RateLimited (generic_APIError 429) ?rl)"
    by (simp add: dispatch_def Let_def always_limited_def rate_limited_response_def classify_def)
  have wt: "clock start + wait_duration ?rl (clock start) = 102" "clock start = 100"
    "sent start = []"
    by (simp_all add: wait_duration_def start_def)
  have free: "\<not> canceled_before no_limits 102" "\<not> deadline_exceeded no_limits 102"
    by (simp_all add: canceled_before_def deadline_exceeded_def no_limits_def)
  have dl: "deadline_exceeded ?dl 102"
    by (simp add: deadline_exceeded_def)
  have cn: "canceled_before ?cn 102" "\<not> deadline_exceeded ?cn 102" "canceled_at ?cn = Some 101"
    by (simp_all add: canceled_before_def deadline_exceeded_def)
  from C3_wait_and_abort [where c = always_limited and dec = Some and rq = get_trackings_request
                            and w = start and e = "generic_APIError 429" and rl = ?rl
                            and ctx = no_limits]
       d wt free
  have a: "clock (snd (execute always_limited Some no_limits get_trackings_request start)) = 102"
    by simp
  from C3_wait_and_abort [where c = always_limited and dec = Some and rq = get_trackings_request
                            and w = start and e = "generic_APIError 429" and rl = ?rl
                            and ctx = ?dl]
       d wt dl
  have b: "fst (execute always_limited Some ?dl get_trackings_request start) =
             Inl (RateLimited (generic_APIError 429) ?rl) \<and>
           length (sent (snd (execute always_limited Some ?dl get_trackings_request start))) = 1 \<and>
           clock (snd (execute always_limited Some ?dl get_trackings_request start)) = 100"
    by simp
  from C3_wait_and_abort [where c = always_limited and dec = Some and rq = get_trackings_request
                            and w = start and e = "generic_APIError 429" and rl = ?rl
                            and ctx = ?cn]
       d wt cn
  have c: "fst (execute always_limited Some ?cn get_trackings_request start) =
             Inl (RateLimited (generic_APIError 429) ?rl) \<and>
           length (sent (snd (execute always_limited Some ?cn get_trackings_request start))) = 1 \<and>
           clock (snd (execute always_limited Some ?cn get_trackings_request start)) = 101"
    by simp
  from a b c show ?thesis by blast
qed

end
